theory Spec2Isabelle
  imports Main "HOL-Library.Word" "HOL-Library.Product_Lexorder" "HOL-Library.List_Lexorder"
begin

section \<open>Data model\<close>

text \<open>
  \<open>common.Hash\<close> is a 32-byte array, read here as a 256-bit word; the zero value
  \<open>common.Hash{}\<close> is the word \<open>0\<close>. Block numbers are \<open>uint64\<close>, so \<open>n - 1\<close> and
  \<open>n + 1\<close> wrap around as they do in Go.
\<close>

type_synonym u64 = "64 word"
type_synonym hash = "256 word"
type_synonym bytes = "8 word list"

text \<open>
  \<open>types.Header\<close>, restricted to the fields the two source files read. \<open>Hash\<close> stands for
  the method \<open>Header.Hash()\<close>, \<open>Number\<close> for \<open>Header.Number.Uint64()\<close>. \<open>BaseFee\<close> is a
  \<open>*big.Int\<close> that is nil before the London fork: \<open>None\<close> is the nil pointer.
\<close>

record header =
  Hash :: hash
  ParentHash :: hash
  Number :: u64
  Difficulty :: nat
  BaseFee :: "u64 option"
  GasLimit :: u64

text \<open>\<open>types.RawBody\<close>: the encoded transactions and the uncles.\<close>

record RawBody =
  Transactions :: "bytes list"
  Uncles :: "header list"

text \<open>
  A decoded transaction as \<open>rawdb.ReadBodyWithTransactions\<close> returns it. \<open>rlp.Encode\<close> may
  fail on it; \<open>Unencodable\<close> is a transaction on which it does.
\<close>

datatype transaction = Tx bytes | Unencodable

text \<open>A row whose value is RLP: either it decodes to a value or \<open>rlp.DecodeBytes\<close> fails.\<close>

datatype 'a rlp = Rlp 'a | Malformed

datatype table =
  Headers | HeaderTD | HeaderCanonical | HeaderNumber | BlockBody | EthTx
  | HeadHeaderKey | HeadBlockKey | LastForkchoice | SyncStageProgress | DatabaseInfo

datatype stage = StageHeaders | StageExecution | StageFinish

datatype error =
  IOError table
  | ValidationFailed nat
  | DecodeError
  | EncodeError
  | BeginRwError
  | CommitError
  | FlushError
  | ReadCanonicalHashOfUnwindPoint error
  | CouldNotFindHeader u64
  | FailedToRecoverBody u64 hash
  | MarkingCanonicalHeader u64 hash error
  | AncestorIsNil u64 hash
  | ReadingCanonicalHash u64 error
  | TruncateCanonicalHashError error
  | TDKeyLength bytes

text \<open>A run-time panic (nil pointer dereference): the call does not return.\<close>

datatype panic = NilPointerDereference

subsection \<open>The key-value store\<close>

text \<open>
  Modelled from the spec: the transactional key-value store (\<open>kv.RwTx\<close>) is an external
  collaborator and not among the sources. The spec lists the tables touched:
  \<open>Headers[num\<parallel>hash]\<close>, \<open>HeaderTD[num\<parallel>hash]\<close>, \<open>CanonicalHash[num]\<close>,
  \<open>BlockBody[num\<parallel>hash]\<close>, \<open>HeadHeader\<close>, \<open>HeadBlock\<close>, \<open>ForkchoiceHead/Safe/Finalized\<close>.
  A transaction is the contents of these tables. The tables the stage scans with a
  cursor (\<open>Headers\<close>, \<open>HeaderTD\<close>) are association lists, read in key order; the
  \<open>HeaderTD\<close> keys are kept as raw bytes because the scan inspects their length.
  \<open>faulty t\<close> says that every access to table \<open>t\<close> fails with an I/O error.
\<close>

record kvtx =
  canonical :: "u64 \<rightharpoonup> hash"
  headerNumbers :: "hash \<rightharpoonup> u64"
  headerRows :: "((u64 \<times> hash) \<times> header rlp) list"
  tdRows :: "(bytes \<times> nat rlp) list"
  bodyRows :: "(u64 \<times> hash) \<rightharpoonup> transaction list"
  headHeaderHash :: "hash option"
  headBlockHash :: "hash option"
  forkchoiceHead :: "hash option"
  forkchoiceSafe :: "hash option"
  forkchoiceFinalized :: "hash option"
  stageProgress :: "stage \<rightharpoonup> u64"
  databaseInfo :: "string \<rightharpoonup> string"
  faulty :: "table \<Rightarrow> bool"

text \<open>
  Modelled from the spec: \<open>rawdb.ReadCanonicalHash\<close> is not among the sources. It reads
  \<open>CanonicalHash[num]\<close>; a missing entry is the zero hash, a store failure is an error.
\<close>

definition ReadCanonicalHash :: "kvtx \<Rightarrow> u64 \<Rightarrow> error + hash" where
  "ReadCanonicalHash tx n =
     (if faulty tx HeaderCanonical then Inl (IOError HeaderCanonical)
      else Inr (case canonical tx n of None \<Rightarrow> 0 | Some h \<Rightarrow> h))"

text \<open>
  Modelled from the spec: \<open>rawdb.IsCanonicalHash\<close> is not among the sources. A hash is
  canonical when the store knows its block number and \<open>CanonicalHash\<close> at that number is
  this (non-zero) hash.
\<close>

definition IsCanonicalHash :: "kvtx \<Rightarrow> hash \<Rightarrow> error + bool" where
  "IsCanonicalHash tx h =
     (case headerNumbers tx h of
        None \<Rightarrow> Inr False
      | Some n \<Rightarrow>
          (case ReadCanonicalHash tx n of
             Inl e \<Rightarrow> Inl e
           | Inr c \<Rightarrow> Inr (c \<noteq> 0 \<and> c = h)))"

text \<open>
  Modelled from the spec: \<open>rawdb.ReadHeader\<close> is not among the sources. It reads
  \<open>Headers[num\<parallel>hash]\<close> and returns nil when the row is missing, unreadable or does not
  decode.
\<close>

definition ReadHeader :: "kvtx \<Rightarrow> hash \<Rightarrow> u64 \<Rightarrow> header option" where
  "ReadHeader tx h n =
     (if faulty tx Headers then None
      else case map_of (headerRows tx) (n, h) of
             Some (Rlp hd') \<Rightarrow> Some hd'
           | _ \<Rightarrow> None)"

text \<open>Modelled from the spec: \<open>tx.Has(kv.BlockBody, key)\<close>, membership in \<open>BlockBody\<close>.\<close>

definition Has_BlockBody :: "kvtx \<Rightarrow> u64 \<Rightarrow> hash \<Rightarrow> error + bool" where
  "Has_BlockBody tx n h =
     (if faulty tx BlockBody then Inl (IOError BlockBody)
      else Inr (bodyRows tx (n, h) \<noteq> None))"

text \<open>
  Modelled from the spec: \<open>rawdb.ReadBodyWithTransactions\<close> is not among the sources. It
  returns the body stored for \<open>(hash, number)\<close> with its transactions, nil when there is
  none, and an error when the store fails.
\<close>

definition ReadBodyWithTransactions :: "kvtx \<Rightarrow> hash \<Rightarrow> u64 \<Rightarrow> error + transaction list option" where
  "ReadBodyWithTransactions tx h n =
     (if faulty tx BlockBody then Inl (IOError BlockBody)
      else if faulty tx EthTx then Inl (IOError EthTx)
      else Inr (bodyRows tx (n, h)))"

text \<open>\<open>rlp.Encode\<close> on one transaction.\<close>

fun rlp_Encode :: "transaction \<Rightarrow> error + bytes" where
  "rlp_Encode (Tx b) = Inr b"
| "rlp_Encode Unencodable = Inl EncodeError"

text \<open>
  The loop of \<open>validateAndStorePayload\<close> over \<open>bodyWithTxs.Transactions\<close>: it stops at the
  first transaction that does not encode.
\<close>

fun encodeTxs :: "transaction list \<Rightarrow> error + bytes list" where
  "encodeTxs [] = Inr []"
| "encodeTxs (t # ts) =
     (case rlp_Encode t of
        Inl e \<Rightarrow> Inl e
      | Inr b \<Rightarrow> (case encodeTxs ts of Inl e \<Rightarrow> Inl e | Inr bs \<Rightarrow> Inr (b # bs)))"

subsection \<open>The in-memory overlay\<close>

text \<open>
  Modelled from the spec: \<open>memdb.MemoryMutation\<close> is not among the sources. The spec's
  design notes describe it: reads fall through to the base transaction, writes are
  captured locally, \<open>Flush\<close> replays the captured writes into a transaction, \<open>Rollback\<close>
  discards them. \<open>ovWrites\<close> is the captured write set, as the function that applies it.
\<close>

record overlay =
  ovBase :: kvtx
  ovWrites :: "kvtx \<Rightarrow> kvtx"
  ovFlushFails :: bool

definition NewMemoryBatch :: "kvtx \<Rightarrow> overlay" where
  "NewMemoryBatch tx = \<lparr>ovBase = tx, ovWrites = (\<lambda>t. t), ovFlushFails = False\<rparr>"

definition UpdateTxn :: "overlay \<Rightarrow> kvtx \<Rightarrow> overlay" where
  "UpdateTxn m tx = m\<lparr>ovBase := tx\<rparr>"

text \<open>What a read through the overlay sees.\<close>

definition ovView :: "overlay \<Rightarrow> kvtx" where
  "ovView m = ovWrites m (ovBase m)"

definition Flush :: "overlay \<Rightarrow> kvtx \<Rightarrow> error + kvtx" where
  "Flush m tx = (if ovFlushFails m then Inl FlushError else Inr (ovWrites m tx))"

section \<open>The fork validator (turbo/engineapi/fork\_validator.go)\<close>

definition maxForkDepth :: u64 where
  "maxForkDepth = 32"

text \<open>Modelled from the spec: \<open>math.AbsoluteDifference\<close>, the spec's \<open>|x - y|\<close> on \<open>uint64\<close>.\<close>

definition AbsoluteDifference :: "u64 \<Rightarrow> u64 \<Rightarrow> u64" where
  "AbsoluteDifference x y = (if x > y then x - y else y - x)"

text \<open>
  \<open>remote.EngineStatus\<close>. The named result \<open>status\<close> of \<open>ValidatePayload\<close> starts at the
  zero value of the enumeration, its first member.
\<close>

datatype EngineStatus = VALID | INVALID | SYNCING | ACCEPTED

definition EngineStatus_zero :: EngineStatus where
  "EngineStatus_zero = VALID"

record forkSegment =
  header :: header
  body :: RawBody

text \<open>
  The callback \<open>validatePayloadFunc\<close>: it receives the overlay it may write to, the header,
  the body (nil is \<open>None\<close>), the unwind point and the side chain, and returns its error
  (nil is \<open>None\<close>) together with the overlay as it left it.
\<close>

type_synonym validatePayloadFunc =
  "overlay \<Rightarrow> header \<Rightarrow> RawBody option \<Rightarrow> u64 \<Rightarrow> header list \<Rightarrow> RawBody list \<Rightarrow> error option \<times> overlay"

record ForkValidator =
  sideForksBlock :: "hash \<rightharpoonup> forkSegment"
  extendingFork :: "overlay option"
  extendingForkHeadHash :: hash
  validatePayload :: "validatePayloadFunc option"
  currentHeight :: u64

definition NewForkValidatorMock :: "u64 \<Rightarrow> ForkValidator" where
  "NewForkValidatorMock h =
     \<lparr>sideForksBlock = Map.empty, extendingFork = None, extendingForkHeadHash = 0,
      validatePayload = None, currentHeight = h\<rparr>"

definition NewForkValidator :: "u64 \<Rightarrow> validatePayloadFunc \<Rightarrow> ForkValidator" where
  "NewForkValidator h vp =
     \<lparr>sideForksBlock = Map.empty, extendingFork = None, extendingForkHeadHash = 0,
      validatePayload = Some vp, currentHeight = h\<rparr>"

definition ExtendingForkHeadHash :: "ForkValidator \<Rightarrow> hash" where
  "ExtendingForkHeadHash fv = extendingForkHeadHash fv"

text \<open>The four named results of \<open>ValidatePayload\<close> and \<open>validateAndStorePayload\<close>.\<close>

record payloadResult =
  status :: EngineStatus
  latestValidHash :: hash
  validationError :: "error option"
  criticalError :: "error option"

definition noResult :: payloadResult where
  "noResult = \<lparr>status = EngineStatus_zero, latestValidHash = 0, validationError = None, criticalError = None\<rparr>"

text \<open>\<open>clean\<close>: delete every cached segment further than \<open>maxForkDepth\<close> from the head.\<close>

definition clean :: "ForkValidator \<Rightarrow> ForkValidator" where
  "clean fv =
     fv\<lparr>sideForksBlock :=
          (\<lambda>h. case sideForksBlock fv h of
                  None \<Rightarrow> None
                | Some sb \<Rightarrow>
                    if AbsoluteDifference (currentHeight fv) (Number (header sb)) > maxForkDepth
                    then None else Some sb)\<rparr>"

text \<open>
  \<open>NotifyCurrentHeight\<close>. \<open>Rollback\<close> on the overlay discards it; the validator then drops
  its reference, so the state afterwards holds no overlay.
\<close>

definition NotifyCurrentHeight :: "ForkValidator \<Rightarrow> u64 \<Rightarrow> ForkValidator" where
  "NotifyCurrentHeight fv h =
     fv\<lparr>currentHeight := h, extendingFork := None, extendingForkHeadHash := 0\<rparr>"

text \<open>
  \<open>FlushExtendingFork\<close>: with no overlay the method call on the nil pointer panics; a
  failed flush returns the error and leaves the validator as it was.
\<close>

definition FlushExtendingFork :: "ForkValidator \<Rightarrow> kvtx \<Rightarrow> panic + (error option \<times> kvtx \<times> ForkValidator)" where
  "FlushExtendingFork fv tx =
     (case extendingFork fv of
        None \<Rightarrow> Inl NilPointerDereference
      | Some m \<Rightarrow>
          (case Flush m tx of
             Inl e \<Rightarrow> Inr (Some e, tx, fv)
           | Inr tx' \<Rightarrow> Inr (None, tx', fv\<lparr>extendingForkHeadHash := 0, extendingFork := None\<rparr>)))"

text \<open>
  \<open>validateAndStorePayload\<close>. Its argument \<open>tx\<close> is a pointer: on the canonical-extension
  path it is the validator's own \<open>extendingFork\<close> (\<open>aliased\<close>), so what the callback writes
  is what the validator holds afterwards; on the side-fork path it is a fresh batch.
\<close>

definition validateAndStorePayload ::
  "validatePayloadFunc \<Rightarrow> ForkValidator \<Rightarrow> bool \<Rightarrow> overlay \<Rightarrow> header \<Rightarrow> RawBody option \<Rightarrow> u64 \<Rightarrow>
   header list \<Rightarrow> RawBody list \<Rightarrow> payloadResult \<times> ForkValidator" where
  "validateAndStorePayload vp fv aliased tx hdr bdy unwindPoint headersChain bodiesChain =
     (case vp tx hdr bdy unwindPoint headersChain bodiesChain of
        (verr, tx') \<Rightarrow>
          let fv1 = (if aliased then fv\<lparr>extendingFork := Some tx'\<rparr> else fv) in
          (case verr of
             Some e \<Rightarrow>
               (\<lparr>status = INVALID, latestValidHash = ParentHash hdr,
                 validationError = Some e, criticalError = None\<rparr>,
                fv1\<lparr>extendingFork := None, extendingForkHeadHash := 0\<rparr>)
           | None \<Rightarrow>
               (case bdy of
                  None \<Rightarrow>
                    (case ReadBodyWithTransactions (ovView tx') (Hash hdr) (Number hdr) of
                       Inl e \<Rightarrow>
                         (\<lparr>status = EngineStatus_zero, latestValidHash = Hash hdr,
                           validationError = None, criticalError = Some e\<rparr>, fv1)
                     | Inr None \<Rightarrow>
                         (\<lparr>status = EngineStatus_zero, latestValidHash = Hash hdr,
                           validationError = None,
                           criticalError = Some (FailedToRecoverBody (Number hdr) (Hash hdr))\<rparr>, fv1)
                     | Inr (Some txs) \<Rightarrow>
                         (case encodeTxs txs of
                            Inl e \<Rightarrow>
                              (\<lparr>status = EngineStatus_zero, latestValidHash = Hash hdr,
                                validationError = None, criticalError = Some e\<rparr>, fv1)
                          | Inr encodedTxs \<Rightarrow>
                              (\<lparr>status = VALID, latestValidHash = Hash hdr,
                                validationError = None, criticalError = None\<rparr>,
                               fv1\<lparr>sideForksBlock := (sideForksBlock fv1)
                                     (Hash hdr \<mapsto> \<lparr>header = hdr,
                                        body = \<lparr>Transactions = encodedTxs, Uncles = []\<rparr>\<rparr>)\<rparr>)))
                | Some b \<Rightarrow>
                    (\<lparr>status = VALID, latestValidHash = Hash hdr,
                      validationError = None, criticalError = None\<rparr>,
                     fv1\<lparr>sideForksBlock := (sideForksBlock fv1)
                           (Hash hdr \<mapsto> \<lparr>header = hdr, body = b\<rparr>)\<rparr>))))"

text \<open>
  The loop of \<open>ValidatePayload\<close> that assembles the side fork backwards. It either leaves
  \<open>ValidatePayload\<close> with a result (\<open>Return\<close>) or ends with \<open>foundCanonical\<close> and hands
  over the unwind point and the two chains (\<open>Assembled\<close>). The loop follows parent hashes
  through the cache and has no bound of its own, so it takes fuel: one unit per
  iteration, and \<open>None\<close> when the fuel runs out before the loop ends.
\<close>

datatype assembled = Return payloadResult | Assembled u64 "header list" "RawBody list"

fun assembleSideFork ::
  "nat \<Rightarrow> kvtx \<Rightarrow> (hash \<rightharpoonup> forkSegment) \<Rightarrow> hash \<Rightarrow> bool \<Rightarrow> u64 \<Rightarrow> header list \<Rightarrow> RawBody list \<Rightarrow>
   assembled option" where
  "assembleSideFork 0 tx cache currentHash foundCanonical unwindPoint headersChain bodiesChain =
     (if foundCanonical then Some (Assembled unwindPoint headersChain bodiesChain) else None)"
| "assembleSideFork (Suc fuel) tx cache currentHash foundCanonical unwindPoint headersChain bodiesChain =
     (if foundCanonical then Some (Assembled unwindPoint headersChain bodiesChain)
      else case cache currentHash of
             None \<Rightarrow> Some (Return (noResult\<lparr>status := ACCEPTED\<rparr>))
           | Some sb \<Rightarrow>
               (case Has_BlockBody tx (Number (header sb)) (Hash (header sb)) of
                  Inl e \<Rightarrow> Some (Return (noResult\<lparr>criticalError := Some e\<rparr>))
                | Inr has \<Rightarrow>
                    if has then Some (Return (noResult\<lparr>status := ACCEPTED\<rparr>))
                    else (case IsCanonicalHash tx (ParentHash (header sb)) of
                            Inl e \<Rightarrow> Some (Return (noResult\<lparr>criticalError := Some e\<rparr>))
                          | Inr found \<Rightarrow>
                              assembleSideFork fuel tx cache (ParentHash (header sb)) found
                                (Number (header sb) - 1)
                                (header sb # headersChain) (body sb # bodiesChain))))"

text \<open>
  \<open>ValidatePayload\<close>. \<open>defer fv.clean()\<close> is registered after the nil check of the callback,
  so \<open>clean\<close> runs on every later return and not on the first one. The result is \<open>None\<close>
  when the assembly loop does not end within the fuel.
\<close>

definition ValidatePayload ::
  "nat \<Rightarrow> ForkValidator \<Rightarrow> kvtx \<Rightarrow> header \<Rightarrow> RawBody option \<Rightarrow> bool \<Rightarrow>
   (payloadResult \<times> ForkValidator) option" where
  "ValidatePayload fuel fv tx hdr bdy extendCanonical =
     (case validatePayload fv of
        None \<Rightarrow> Some (noResult\<lparr>status := ACCEPTED\<rparr>, fv)
      | Some vp \<Rightarrow>
          map_option (\<lambda>(r, fv'). (r, clean fv'))
            (if sideForksBlock fv (Hash hdr) \<noteq> None
             then Some (noResult\<lparr>status := VALID, latestValidHash := Hash hdr\<rparr>, fv)
             else if extendCanonical
             then (let m = (case extendingFork fv of
                              None \<Rightarrow> NewMemoryBatch tx
                            | Some m0 \<Rightarrow> UpdateTxn m0 tx);
                       fv1 = fv\<lparr>extendingFork := Some m, extendingForkHeadHash := Hash hdr\<rparr>
                   in Some (validateAndStorePayload vp fv1 True m hdr bdy 0 [] []))
             else if AbsoluteDifference (currentHeight fv) (Number hdr) > maxForkDepth
             then Some (noResult\<lparr>status := ACCEPTED\<rparr>, fv)
             else (case IsCanonicalHash tx (ParentHash hdr) of
                     Inl e \<Rightarrow> Some (noResult\<lparr>criticalError := Some e\<rparr>, fv)
                   | Inr foundCanonical \<Rightarrow>
                       (case assembleSideFork fuel tx (sideForksBlock fv) (ParentHash hdr)
                               foundCanonical (Number hdr - 1) [] [] of
                          None \<Rightarrow> None
                        | Some (Return r) \<Rightarrow> Some (r, fv)
                        | Some (Assembled unwindPoint headersChain bodiesChain) \<Rightarrow>
                            (let unwindPoint' =
                                   (if unwindPoint = currentHeight fv then 0 else unwindPoint);
                                 batch = NewMemoryBatch tx
                             in Some (validateAndStorePayload vp fv False batch hdr bdy
                                        unwindPoint' headersChain bodiesChain))))))"

text \<open>\<open>clear\<close>: drop the overlay and the staged head hash.\<close>

definition clear :: "ForkValidator \<Rightarrow> ForkValidator" where
  "clear fv = fv\<lparr>extendingForkHeadHash := 0, extendingFork := None\<rparr>"

text \<open>\<open>types.Block\<close>, as far as \<open>Header()\<close>, \<open>RawBody()\<close> and \<open>Hash()\<close> read it.\<close>

record Block =
  blockHeader :: header
  blockRawBody :: RawBody

text \<open>
  \<open>TryAddingPoWBlock\<close>. \<open>defer fv.clean()\<close> is registered first and therefore runs last,
  after the block has been stored.
\<close>

definition TryAddingPoWBlock :: "ForkValidator \<Rightarrow> Block \<Rightarrow> ForkValidator" where
  "TryAddingPoWBlock fv block =
     clean (fv\<lparr>sideForksBlock := (sideForksBlock fv)
                  (Hash (blockHeader block) \<mapsto>
                     \<lparr>header = blockHeader block, body = blockRawBody block\<rparr>)\<rparr>)"

text \<open>
  The transaction-pool accumulator is an external collaborator: it is the list of the
  calls it has received, oldest first. The consumer is passed through to it.
\<close>

type_synonym StateChangeConsumer = nat

datatype accumulatorCall =
  Reset u64
  | StartChange u64 hash "bytes list" bool
  | SendAndReset StateChangeConsumer u64 u64

type_synonym Accumulator = "accumulatorCall list"

text \<open>
  \<open>notifyTxPool\<close> reads through \<open>fv.extendingFork\<close>. \<open>rawdb.RawTransactionsRange\<close> is not
  among the sources and the spec does not describe it; it is the parameter
  \<open>rawTransactionsRange\<close>. A nil \<open>BaseFee\<close> makes \<open>header.BaseFee.Uint64()\<close> panic, and so does
  a read through a nil overlay.
\<close>

definition notifyTxPool ::
  "(kvtx \<Rightarrow> u64 \<Rightarrow> u64 \<Rightarrow> error + bytes list) \<Rightarrow> ForkValidator \<Rightarrow> u64 \<Rightarrow> Accumulator \<Rightarrow>
   StateChangeConsumer \<Rightarrow> panic + (error option \<times> Accumulator)" where
  "notifyTxPool rawTransactionsRange fv to accumulator c =
     (case extendingFork fv of
        None \<Rightarrow> Inl NilPointerDereference
      | Some m \<Rightarrow>
          (case ReadCanonicalHash (ovView m) to of
             Inl e \<Rightarrow> Inr (Some (ReadCanonicalHashOfUnwindPoint e), accumulator)
           | Inr h \<Rightarrow>
               (case ReadHeader (ovView m) h to of
                  None \<Rightarrow> Inr (Some (CouldNotFindHeader to), accumulator)
                | Some hdr \<Rightarrow>
                    (case rawTransactionsRange (ovView m) to (to + 1) of
                       Inl e \<Rightarrow> Inr (Some e, accumulator)
                     | Inr txs \<Rightarrow>
                         (case BaseFee hdr of
                            None \<Rightarrow> Inl NilPointerDereference
                          | Some baseFee \<Rightarrow>
                              Inr (None,
                                   accumulator @
                                     [Reset 0, StartChange to h txs True,
                                      SendAndReset c baseFee (GasLimit hdr)]))))))"

text \<open>
  \<open>ClearWithUnwind\<close>. The accumulator is a pointer that may be nil (\<open>None\<close>). An error of
  \<open>notifyTxPool\<close> is only logged.
\<close>

definition ClearWithUnwind ::
  "(kvtx \<Rightarrow> u64 \<Rightarrow> u64 \<Rightarrow> error + bytes list) \<Rightarrow> ForkValidator \<Rightarrow> kvtx \<Rightarrow> Accumulator option \<Rightarrow>
   StateChangeConsumer \<Rightarrow> panic + (ForkValidator \<times> Accumulator option)" where
  "ClearWithUnwind rawTransactionsRange fv tx accumulator c =
     (case (extendingFork fv, accumulator, sideForksBlock fv (extendingForkHeadHash fv)) of
        (Some m, Some acc, Some sb) \<Rightarrow>
          if extendingForkHeadHash fv \<noteq> 0
          then (let fv1 = fv\<lparr>extendingFork := Some (UpdateTxn m tx)\<rparr>
                in case notifyTxPool rawTransactionsRange fv1 (Number (header sb) - 1) acc c of
                     Inl p \<Rightarrow> Inl p
                   | Inr (err, acc') \<Rightarrow> Inr (clear fv1, Some acc'))
          else Inr (clear fv, accumulator)
      | _ \<Rightarrow> Inr (clear fv, accumulator))"

section \<open>The stages (eth/stagedsync)\<close>

subsection \<open>Store helpers of the stages\<close>

text \<open>
  Modelled from the spec: the database handle \<open>kv.RwDB\<close> is not among the sources. It holds
  the committed contents; \<open>BeginRw\<close> opens a transaction on them and \<open>Commit\<close> makes a
  transaction's contents the committed ones. Either may fail.
\<close>

record kvdb =
  committed :: kvtx
  beginRwFails :: bool
  commitFails :: bool

definition BeginRw :: "kvdb \<Rightarrow> error + kvtx" where
  "BeginRw d = (if beginRwFails d then Inl BeginRwError else Inr (committed d))"

definition Commit :: "kvdb \<Rightarrow> kvtx \<Rightarrow> error + kvdb" where
  "Commit d tx = (if commitFails d then Inl CommitError else Inr (d\<lparr>committed := tx\<rparr>))"

text \<open>
  Modelled from the spec: the \<open>rawdb\<close> accessors below are not among the sources; each reads
  or writes the one table entry the spec names for it. The source calls
  \<open>ReadHeadHeaderHash\<close>, \<open>WriteHeadBlockHash\<close> and the three \<open>WriteForkchoice...\<close> without an
  error result, so they have no failure branch here.
\<close>

definition ReadHeadHeaderHash :: "kvtx \<Rightarrow> hash" where
  "ReadHeadHeaderHash tx = (case headHeaderHash tx of None \<Rightarrow> 0 | Some h \<Rightarrow> h)"

definition WriteHeadHeaderHash :: "kvtx \<Rightarrow> hash \<Rightarrow> error + kvtx" where
  "WriteHeadHeaderHash tx h =
     (if faulty tx HeadHeaderKey then Inl (IOError HeadHeaderKey)
      else Inr (tx\<lparr>headHeaderHash := Some h\<rparr>))"

definition WriteHeadBlockHash :: "kvtx \<Rightarrow> hash \<Rightarrow> kvtx" where
  "WriteHeadBlockHash tx h = tx\<lparr>headBlockHash := Some h\<rparr>"

definition WriteForkchoiceHead :: "kvtx \<Rightarrow> hash \<Rightarrow> kvtx" where
  "WriteForkchoiceHead tx h = tx\<lparr>forkchoiceHead := Some h\<rparr>"

definition WriteForkchoiceSafe :: "kvtx \<Rightarrow> hash \<Rightarrow> kvtx" where
  "WriteForkchoiceSafe tx h = tx\<lparr>forkchoiceSafe := Some h\<rparr>"

definition WriteForkchoiceFinalized :: "kvtx \<Rightarrow> hash \<Rightarrow> kvtx" where
  "WriteForkchoiceFinalized tx h = tx\<lparr>forkchoiceFinalized := Some h\<rparr>"


text \<open>
  Modelled from the spec: \<open>rawdb.TruncateCanonicalHash\<close> is not among the sources. The spec:
  ``Truncate the canonical-hash index above \<open>UnwindPoint\<close> (but retain header and TD
  rows)''. It removes every entry of \<open>CanonicalHash\<close> from \<open>blockFrom\<close> upwards; with
  \<open>deleteHeaders\<close> it also removes the header rows those entries name.
\<close>

definition TruncateCanonicalHash :: "kvtx \<Rightarrow> u64 \<Rightarrow> bool \<Rightarrow> error + kvtx" where
  "TruncateCanonicalHash tx blockFrom deleteHeaders =
     (if faulty tx HeaderCanonical then Inl (TruncateCanonicalHashError (IOError HeaderCanonical))
      else Inr (tx\<lparr>canonical := (\<lambda>n. if blockFrom \<le> n then None else canonical tx n),
                  headerRows :=
                    (if deleteHeaders
                     then filter (\<lambda>(k, v). \<not> (blockFrom \<le> fst k \<and> canonical tx (fst k) = Some (snd k)))
                            (headerRows tx)
                     else headerRows tx)\<rparr>))"

text \<open>
  Modelled from the spec: the stage bookkeeping (\<open>StageState\<close>, \<open>UnwindState\<close>) is not among
  the sources. \<open>ExecutionAt\<close> reads the progress of the execution stage, \<open>Update\<close> saves the
  progress of the stage itself, \<open>Done\<close> saves the unwind point as the progress of the
  unwound stage.
\<close>

record StageState =
  ID :: stage
  BlockNumber :: u64

record UnwindState =
  UnwindID :: stage
  UnwindPoint :: u64
  BadBlock :: hash

definition SaveStageProgress :: "kvtx \<Rightarrow> stage \<Rightarrow> u64 \<Rightarrow> error + kvtx" where
  "SaveStageProgress tx st n =
     (if faulty tx SyncStageProgress then Inl (IOError SyncStageProgress)
      else Inr (tx\<lparr>stageProgress := (stageProgress tx)(st \<mapsto> n)\<rparr>))"

definition ExecutionAt :: "StageState \<Rightarrow> kvtx \<Rightarrow> error + u64" where
  "ExecutionAt s tx =
     (if faulty tx SyncStageProgress then Inl (IOError SyncStageProgress)
      else Inr (case stageProgress tx StageExecution of None \<Rightarrow> 0 | Some n \<Rightarrow> n))"

definition Update :: "StageState \<Rightarrow> kvtx \<Rightarrow> u64 \<Rightarrow> error + kvtx" where
  "Update s tx newBlockNum = SaveStageProgress tx (ID s) newBlockNum"

definition Done :: "UnwindState \<Rightarrow> kvtx \<Rightarrow> error + kvtx" where
  "Done u tx = SaveStageProgress tx (UnwindID u) (UnwindPoint u)"



text \<open>
  Modelled from the spec: \<open>params.SetErigonVersion\<close> is not among the sources. It records
  the client version under the given key of \<open>DatabaseInfo\<close> unless one is recorded.
\<close>

definition VersionKeyFinished :: string where
  "VersionKeyFinished = ''ErigonVersionFinished''"

definition SetErigonVersion :: "kvtx \<Rightarrow> string \<Rightarrow> error + kvtx" where
  "SetErigonVersion tx versionKey =
     (if faulty tx DatabaseInfo then Inl (IOError DatabaseInfo)
      else if databaseInfo tx versionKey \<noteq> None then Inr tx
      else Inr (tx\<lparr>databaseInfo := (databaseInfo tx)(versionKey \<mapsto> ''Version'')\<rparr>))"

text \<open>
  Modelled from the spec: \<open>rawdb.ReadCurrentBlock\<close> is not among the sources. It is the
  block \<open>HeadBlock\<close> names: its header and its stored transactions, nil when any of them is
  missing.
\<close>

definition ReadCurrentBlock :: "kvtx \<Rightarrow> Block option" where
  "ReadCurrentBlock tx =
     (case headBlockHash tx of
        None \<Rightarrow> None
      | Some h \<Rightarrow>
          (case headerNumbers tx h of
             None \<Rightarrow> None
           | Some n \<Rightarrow>
               (case (ReadHeader tx h n, bodyRows tx (n, h)) of
                  (Some hdr, Some txs) \<Rightarrow>
                    (case encodeTxs txs of
                       Inl e \<Rightarrow> None
                     | Inr raw \<Rightarrow>
                         Some \<lparr>blockHeader = hdr,
                               blockRawBody = \<lparr>Transactions = raw, Uncles = []\<rparr>\<rparr>)
                | _ \<Rightarrow> None)))"

subsection \<open>FinishForward (stage\_finish.go)\<close>

text \<open>
  The head channel: the blocks queued on it and how many it can hold. The source sends
  without blocking (\<open>select\<close> with a \<open>default\<close>): the block is queued when there is room
  and dropped otherwise.
\<close>

record chan =
  queued :: "Block list"
  capacity :: nat

definition trySend :: "chan \<Rightarrow> Block \<Rightarrow> chan" where
  "trySend ch b = (if length (queued ch) < capacity ch then ch\<lparr>queued := queued ch @ [b]\<rparr> else ch)"

record FinishCfg =
  db_finish :: kvdb
  headCh :: "chan option"
  forkValidator :: "ForkValidator option"

text \<open>
  \<open>FinishForward\<close>. \<open>tx\<close> is the caller's transaction or nil (\<open>None\<close>); the result holds the
  returned error, the caller's transaction as the call leaves it, and the configuration
  (database, head channel, fork validator) as the call leaves it. A transaction the
  function opened itself is rolled back on every return but the committing one.
  \<open>block.Number()\<close> on a nil block panics.
\<close>

definition FinishForward ::
  "StageState \<Rightarrow> kvtx option \<Rightarrow> FinishCfg \<Rightarrow> bool \<Rightarrow> panic + (error option \<times> kvtx option \<times> FinishCfg)" where
  "FinishForward s tx cfg initialCycle =
     (let useExternalTx = (tx \<noteq> None);
          out = (\<lambda>t. if useExternalTx then Some t else None)
      in case (case tx of Some t \<Rightarrow> Inr t | None \<Rightarrow> BeginRw (db_finish cfg)) of
           Inl e \<Rightarrow> Inr (Some e, tx, cfg)
         | Inr t \<Rightarrow>
             (case ExecutionAt s t of
                Inl e \<Rightarrow> Inr (Some e, out t, cfg)
              | Inr executionAt \<Rightarrow>
                  if executionAt \<le> BlockNumber s then Inr (None, out t, cfg)
                  else
                    (let t1 = WriteHeadBlockHash t (ReadHeadHeaderHash t)
                     in case Update s t1 executionAt of
                          Inl e \<Rightarrow> Inr (Some e, out t1, cfg)
                        | Inr t2 \<Rightarrow>
                            (let cfg1 =
                                   cfg\<lparr>forkValidator :=
                                         map_option (\<lambda>fv. NotifyCurrentHeight fv executionAt)
                                           (forkValidator cfg)\<rparr>
                             in case (if initialCycle then SetErigonVersion t2 VersionKeyFinished
                                      else Inr t2) of
                                  Inl e \<Rightarrow> Inr (Some e, out t2, cfg1)
                                | Inr t3 \<Rightarrow>
                                    (case ReadCurrentBlock t3 of
                                       None \<Rightarrow> Inl NilPointerDereference
                                     | Some block \<Rightarrow>
                                         (let cfg2 =
                                                cfg1\<lparr>headCh :=
                                                       map_option (\<lambda>ch. trySend ch block) (headCh cfg1)\<rparr>
                                          in if useExternalTx then Inr (None, Some t3, cfg2)
                                             else (case Commit (db_finish cfg2) t3 of
                                                     Inl e \<Rightarrow> Inr (Some e, None, cfg2)
                                                   | Inr d \<Rightarrow>
                                                       Inr (None, None, cfg2\<lparr>db_finish := d\<rparr>))))))))"

subsection \<open>writeForkChoiceHashes (stage\_headers.go)\<close>

record ForkChoiceMessage =
  HeadBlockHash :: hash
  SafeBlockHash :: hash
  FinalizedBlockHash :: hash

text \<open>
  \<open>writeForkChoiceHashes\<close> returns its boolean, its error and the transaction as it leaves
  it. A zero safe or finalized hash skips its check, which is the same as passing it.
\<close>

definition writeForkChoiceHashes :: "ForkChoiceMessage \<Rightarrow> kvtx \<Rightarrow> bool \<times> error option \<times> kvtx" where
  "writeForkChoiceHashes forkChoice tx =
     (case (if SafeBlockHash forkChoice \<noteq> 0 then IsCanonicalHash tx (SafeBlockHash forkChoice)
            else Inr True) of
        Inl e \<Rightarrow> (False, Some e, tx)
      | Inr safeIsCanonical \<Rightarrow>
          if \<not> safeIsCanonical then (False, None, tx)
          else
            (case (if FinalizedBlockHash forkChoice \<noteq> 0
                   then IsCanonicalHash tx (FinalizedBlockHash forkChoice)
                   else Inr True) of
               Inl e \<Rightarrow> (False, Some e, tx)
             | Inr finalizedIsCanonical \<Rightarrow>
                 if \<not> finalizedIsCanonical then (False, None, tx)
                 else
                   (let tx1 = WriteForkchoiceHead tx (HeadBlockHash forkChoice);
                        tx2 = (if SafeBlockHash forkChoice \<noteq> 0
                               then WriteForkchoiceSafe tx1 (SafeBlockHash forkChoice) else tx1);
                        tx3 = (if FinalizedBlockHash forkChoice \<noteq> 0
                               then WriteForkchoiceFinalized tx2 (FinalizedBlockHash forkChoice)
                               else tx2)
                    in (True, None, tx3))))"

subsection \<open>fixCanonicalChain (stage\_headers.go)\<close>



subsection \<open>HeadersUnwind (stage\_headers.go)\<close>

text \<open>
  Modelled from the spec: \<open>headerdownload.HeaderDownload\<close> is not among the sources. Of it
  the unwind uses the bad-header set, which only grows.
\<close>

record HeaderDownload =
  badHeaders :: "hash set"

definition ReportBadHeader :: "HeaderDownload \<Rightarrow> hash \<Rightarrow> HeaderDownload" where
  "ReportBadHeader d h = d\<lparr>badHeaders := insert h (badHeaders d)\<rparr>"

definition IsBadHeader :: "HeaderDownload \<Rightarrow> hash \<Rightarrow> bool" where
  "IsBadHeader d h = (h \<in> badHeaders d)"

record HeadersCfg =
  db :: kvdb
  hd_cfg :: HeaderDownload

text \<open>
  The cursor over \<open>Headers\<close> from \<open>Seek(EncodeBlockNumber(n))\<close> on: the rows whose block
  number is at least \<open>n\<close>, in key order.
\<close>

definition headerCursorFrom :: "kvtx \<Rightarrow> u64 \<Rightarrow> ((u64 \<times> hash) \<times> header rlp) list" where
  "headerCursorFrom tx n = filter (\<lambda>(k, v). n \<le> fst k) (sort_key fst (headerRows tx))"

text \<open>
  The first loop of \<open>HeadersUnwind\<close>: a header whose parent is bad is reported bad. A row
  that does not decode ends the loop with the error; what was reported stays reported.
\<close>

fun markBadDescendants ::
  "((u64 \<times> hash) \<times> header rlp) list \<Rightarrow> HeaderDownload \<Rightarrow> error option \<times> HeaderDownload" where
  "markBadDescendants [] d = (None, d)"
| "markBadDescendants ((k, v) # rows) d =
     (case v of
        Malformed \<Rightarrow> (Some DecodeError, d)
      | Rlp h \<Rightarrow>
          markBadDescendants rows
            (if IsBadHeader d (ParentHash h) then ReportBadHeader d (Hash h) else d))"

text \<open>
  The second loop (test mode): over \<open>HeaderTD\<close> from the last key backwards, the row of
  the largest total difficulty whose hash is not bad. The key is 8 bytes of block number
  and 32 bytes of hash.
\<close>

fun findMaxTd ::
  "(bytes \<times> nat rlp) list \<Rightarrow> HeaderDownload \<Rightarrow> nat \<times> hash \<times> u64 \<Rightarrow> error + (nat \<times> hash \<times> u64)" where
  "findMaxTd [] d best = Inr best"
| "findMaxTd ((k, v) # rows) d (maxTd, maxHash, maxNum) =
     (if length k \<noteq> 40 then Inl (TDKeyLength k)
      else if IsBadHeader d (word_rcat (drop 8 k)) then findMaxTd rows d (maxTd, maxHash, maxNum)
      else case v of
             Malformed \<Rightarrow> Inl DecodeError
           | Rlp td \<Rightarrow>
               if td > maxTd
               then findMaxTd rows d (td, word_rcat (drop 8 k), word_rcat (take 8 k))
               else findMaxTd rows d (maxTd, maxHash, maxNum))"

text \<open>
  The body of \<open>HeadersUnwind\<close> between opening and committing the transaction: the
  returned error, the transaction and the header downloader as it leaves them.
\<close>

definition unwindHeaders ::
  "UnwindState \<Rightarrow> StageState \<Rightarrow> bool \<Rightarrow> kvtx \<Rightarrow> HeaderDownload \<Rightarrow> error option \<times> kvtx \<times> HeaderDownload" where
  "unwindHeaders u s test tx d0 =
     (let badBlock = (BadBlock u \<noteq> 0) in
      case (if badBlock
            then (let d = ReportBadHeader d0 (BadBlock u)
                  in if faulty tx Headers then (Some (IOError Headers), d)
                     else markBadDescendants (headerCursorFrom tx (UnwindPoint u + 1)) d)
            else (None, d0)) of
        (Some e, d1) \<Rightarrow> (Some e, tx, d1)
      | (None, d1) \<Rightarrow>
          (case TruncateCanonicalHash tx (UnwindPoint u + 1) False of
             Inl e \<Rightarrow> (Some e, tx, d1)
           | Inr tx1 \<Rightarrow>
               if \<not> badBlock then (None, tx1, d1)
               else
                 (case (if test
                        then (if faulty tx1 HeaderTD then Inl (IOError HeaderTD)
                              else findMaxTd (rev (sort_key fst (tdRows tx1))) d1 (0, 0, 0))
                        else Inr (0, 0, 0)) of
                    Inl e \<Rightarrow> (Some e, tx1, d1)
                  | Inr (maxTd, maxHash, maxNum) \<Rightarrow>
                      (case (if maxNum = 0
                             then (case ReadCanonicalHash tx1 (UnwindPoint u) of
                                     Inl e \<Rightarrow> Inl e
                                   | Inr h \<Rightarrow> Inr (h, UnwindPoint u))
                             else Inr (maxHash, maxNum)) of
                         Inl e \<Rightarrow> (Some e, tx1, d1)
                       | Inr (maxHash', maxNum') \<Rightarrow>
                           (case WriteHeadHeaderHash tx1 maxHash' of
                              Inl e \<Rightarrow> (Some e, tx1, d1)
                            | Inr tx2 \<Rightarrow>
                                (case Done u tx2 of
                                   Inl e \<Rightarrow> (Some e, tx2, d1)
                                 | Inr tx3 \<Rightarrow>
                                     (case Update s tx3 maxNum' of
                                        Inl e \<Rightarrow> (Some e, tx3, d1)
                                      | Inr tx4 \<Rightarrow> (None, tx4, d1))))))))"

text \<open>
  \<open>HeadersUnwind\<close>. \<open>tx\<close> is the caller's transaction or nil (\<open>None\<close>): with nil the function
  opens its own, commits it at the end and rolls it back on an error. The result holds
  the returned error, the caller's transaction and the configuration afterwards.
\<close>

definition HeadersUnwind ::
  "UnwindState \<Rightarrow> StageState \<Rightarrow> kvtx option \<Rightarrow> HeadersCfg \<Rightarrow> bool \<Rightarrow> error option \<times> kvtx option \<times> HeadersCfg" where
  "HeadersUnwind u s tx cfg test =
     (case tx of
        Some t \<Rightarrow>
          (case unwindHeaders u s test t (hd_cfg cfg) of
             (e, t', d') \<Rightarrow> (e, Some t', cfg\<lparr>hd_cfg := d'\<rparr>))
      | None \<Rightarrow>
          (case BeginRw (db cfg) of
             Inl e \<Rightarrow> (Some e, None, cfg)
           | Inr t \<Rightarrow>
               (case unwindHeaders u s test t (hd_cfg cfg) of
                  (Some e, t', d') \<Rightarrow> (Some e, None, cfg\<lparr>hd_cfg := d'\<rparr>)
                | (None, t', d') \<Rightarrow>
                    (case Commit (db cfg) t' of
                       Inl e \<Rightarrow> (Some e, None, cfg\<lparr>hd_cfg := d'\<rparr>)
                     | Inr d \<Rightarrow> (None, None, cfg\<lparr>db := d, hd_cfg := d'\<rparr>)))))"

section \<open>Example states\<close>

text \<open>
  A store whose canonical chain ends with block 99 (hash \<open>0x99\<close>) and block 100 (hash
  \<open>0xA0\<close>), two callbacks (one accepts, one fails and reports the unwind point it was
  given) and an empty body.
\<close>

definition mkHeader :: "hash \<Rightarrow> hash \<Rightarrow> u64 \<Rightarrow> header" where
  "mkHeader h p n =
     \<lparr>Hash = h, ParentHash = p, Number = n, Difficulty = 0, BaseFee = Some 7, GasLimit = 30000000\<rparr>"

definition exTx :: kvtx where
  "exTx =
     \<lparr>canonical = [99 \<mapsto> 0x99, 100 \<mapsto> 0xA0],
      headerNumbers = [0x99 \<mapsto> 99, 0xA0 \<mapsto> 100],
      headerRows =
        [((99, 0x99), Rlp (mkHeader 0x99 0x98 99)), ((100, 0xA0), Rlp (mkHeader 0xA0 0x99 100))],
      tdRows = [],
      bodyRows = [(99, 0x99) \<mapsto> [], (100, 0xA0) \<mapsto> [Tx [1]]],
      headHeaderHash = Some 0xA0, headBlockHash = Some 0xA0,
      forkchoiceHead = None, forkchoiceSafe = None, forkchoiceFinalized = None,
      stageProgress = Map.empty, databaseInfo = Map.empty, faulty = (\<lambda>t. False)\<rparr>"

definition vpOk :: validatePayloadFunc where
  "vpOk = (\<lambda>m h b u hc bc. (None, m))"

definition vpEcho :: validatePayloadFunc where
  "vpEcho = (\<lambda>m h b u hc bc. (Some (ValidationFailed (unat u)), m))"

definition emptyBody :: RawBody where
  "emptyBody = \<lparr>Transactions = [], Uncles = []\<rparr>"

text \<open>A validator that has a cached side block \<open>0xC0\<close> at height 100 on top of block 99.\<close>

definition exFv :: ForkValidator where
  "exFv =
     (NewForkValidator 100 vpEcho)
       \<lparr>sideForksBlock := [0xC0 \<mapsto> \<lparr>header = mkHeader 0xC0 0x99 100, body = emptyBody\<rparr>]\<rparr>"

text \<open>
  A validator that has staged block 101 (hash \<open>0xA1\<close>) on top of the canonical head, and a
  transaction range reader that finds no transactions.
\<close>

definition stagedFv :: ForkValidator where
  "stagedFv =
     (NewForkValidator 100 vpOk)
       \<lparr>sideForksBlock := [0xA1 \<mapsto> \<lparr>header = mkHeader 0xA1 0xA0 101, body = emptyBody\<rparr>],
        extendingFork := Some (NewMemoryBatch exTx), extendingForkHeadHash := 0xA1\<rparr>"

definition noTransactions :: "kvtx \<Rightarrow> u64 \<Rightarrow> u64 \<Rightarrow> error + bytes list" where
  "noTransactions tx from to = Inr []"



definition tdKey :: "8 word \<Rightarrow> 8 word \<Rightarrow> bytes" where
  "tdKey n h = replicate 7 0 @ [n] @ replicate 31 0 @ [h]"

definition unwindTx :: kvtx where
  "unwindTx = exTx\<lparr>tdRows := [(tdKey 99 0x99, Rlp 990), (tdKey 100 0xA0, Rlp 1000)]\<rparr>"

definition exHeadersCfg :: HeadersCfg where
  "exHeadersCfg =
     \<lparr>db = \<lparr>committed = unwindTx, beginRwFails = False, commitFails = False\<rparr>,
      hd_cfg = \<lparr>badHeaders = {}\<rparr>\<rparr>"

definition exFinishCfg :: FinishCfg where
  "exFinishCfg =
     \<lparr>db_finish = \<lparr>committed = exTx\<lparr>stageProgress := [StageExecution \<mapsto> 100]\<rparr>,
                   beginRwFails = False, commitFails = False\<rparr>,
      headCh = Some \<lparr>queued = [], capacity = 1\<rparr>,
      forkValidator = Some stagedFv\<rparr>"

text \<open>An overlay that has captured one write: the head header hash \<open>0xA1\<close>.\<close>

definition writingOverlay :: overlay where
  "writingOverlay =
     \<lparr>ovBase = exTx, ovWrites = (\<lambda>t. t\<lparr>headHeaderHash := Some 0xA1\<rparr>), ovFlushFails = False\<rparr>"

section \<open>The claims' words about the stages\<close>



text \<open>
  The store a stage call works on and leaves behind: the caller's transaction when there
  is one, the committed contents of the database otherwise.
\<close>

definition storeOf :: "kvtx option \<Rightarrow> kvdb \<Rightarrow> kvtx" where
  "storeOf tx d = (case tx of Some t \<Rightarrow> t | None \<Rightarrow> committed d)"

section \<open>Invariants of the fork validator\<close>

text \<open>The overlay is there exactly when a head hash is staged.\<close>

definition overlayInvariant :: "ForkValidator \<Rightarrow> bool" where
  "overlayInvariant fv = ((extendingFork fv \<noteq> None) = (extendingForkHeadHash fv \<noteq> 0))"

text \<open>Every cached segment is within \<open>maxForkDepth\<close> of the current height.\<close>

definition sideForkInvariant :: "ForkValidator \<Rightarrow> bool" where
  "sideForkInvariant fv =
     (\<forall>h sb. sideForksBlock fv h = Some sb \<longrightarrow>
        AbsoluteDifference (currentHeight fv) (Number (header sb)) \<le> maxForkDepth)"

section \<open>Properties of the fork validator\<close>

lemma assembleSideFork_Return_validationError:
  "assembleSideFork fuel tx cache ch fc up hc bc = Some (Return r) \<Longrightarrow> validationError r = None"
  by (induction fuel arbitrary: ch fc up hc bc)
     (auto simp: noResult_def split: if_splits option.splits sum.splits)

lemma validateAndStorePayload_validationError:
  "validateAndStorePayload vp fv al m hdr bdy up hc bc = (r, fv') \<Longrightarrow> validationError r \<noteq> None \<Longrightarrow>
   status r = INVALID \<and> latestValidHash r = ParentHash hdr \<and>
   extendingFork fv' = None \<and> extendingForkHeadHash fv' = 0"
  by (auto simp: validateAndStorePayload_def Let_def
           split: prod.splits option.splits sum.splits if_splits)

lemma clean_fields:
  "extendingFork (clean fv) = extendingFork fv"
  "extendingForkHeadHash (clean fv) = extendingForkHeadHash fv"
  "currentHeight (clean fv) = currentHeight fv"
  "validatePayload (clean fv) = validatePayload fv"
  by (simp_all add: clean_def)

lemma ValidatePayload_validationError_INVALID:
  assumes "ValidatePayload fuel fv tx hdr bdy extendCanonical = Some (r, fv')"
      and "validationError r \<noteq> None"
  shows "status r = INVALID \<and> latestValidHash r = ParentHash hdr \<and>
         extendingFork fv' = None \<and> extendingForkHeadHash fv' = 0"
  using assms
  by (auto simp: ValidatePayload_def noResult_def Let_def clean_fields
           split: option.splits if_splits sum.splits assembled.splits
           dest: assembleSideFork_Return_validationError validateAndStorePayload_validationError)

lemma validateAndStorePayload_callback:
  "fst (vp m hdr bdy up hc bc) = Some e \<Longrightarrow>
   validationError (fst (validateAndStorePayload vp fv al m hdr bdy up hc bc)) = Some e"
  by (cases "vp m hdr bdy up hc bc") (simp add: validateAndStorePayload_def Let_def)

text \<open>
  C2. The result \<open>validationError\<close> of \<open>ValidatePayload\<close> is what the validate callback
  returned (\<open>validationError = fv.validatePayload(...)\<close>) and is nil on every path that
  does not call it. Whenever a call of \<open>ValidatePayload\<close> returns with a callback error,
  the status is \<open>INVALID\<close>, the latest valid hash is the header's parent hash, and the
  validator is left without overlay and with a zero staged head hash. On the extending
  path and on the side-fork path, an error the callback returns on the arguments it is
  called with is the \<open>validationError\<close> of the call.
\<close>

theorem ValidatePayload_callback_error:
  "(ValidatePayload fuel fv tx hdr bdy extendCanonical = Some (r, fv') \<and> validationError r \<noteq> None \<longrightarrow>
      status r = INVALID \<and> latestValidHash r = ParentHash hdr \<and>
      extendingFork fv' = None \<and> extendingForkHeadHash fv' = 0) \<and>
   (validatePayload fv = Some vp \<and> sideForksBlock fv (Hash hdr) = None \<and>
    fst (vp (case extendingFork fv of None \<Rightarrow> NewMemoryBatch tx | Some m0 \<Rightarrow> UpdateTxn m0 tx)
           hdr bdy 0 [] []) = Some e \<longrightarrow>
      (\<exists>r1 fv1. ValidatePayload fuel fv tx hdr bdy True = Some (r1, fv1) \<and>
                validationError r1 = Some e)) \<and>
   (validatePayload fv = Some vp \<and> sideForksBlock fv (Hash hdr) = None \<and>
    \<not> AbsoluteDifference (currentHeight fv) (Number hdr) > maxForkDepth \<and>
    IsCanonicalHash tx (ParentHash hdr) = Inr fc \<and>
    assembleSideFork fuel tx (sideForksBlock fv) (ParentHash hdr) fc (Number hdr - 1) [] []
      = Some (Assembled up hc bc) \<and>
    fst (vp (NewMemoryBatch tx) hdr bdy (if up = currentHeight fv then 0 else up) hc bc) = Some e \<longrightarrow>
      (\<exists>r2 fv2. ValidatePayload fuel fv tx hdr bdy False = Some (r2, fv2) \<and>
                validationError r2 = Some e))"
proof -
  have A: "ValidatePayload fuel fv tx hdr bdy extendCanonical = Some (r, fv') \<and>
           validationError r \<noteq> None \<longrightarrow>
      status r = INVALID \<and> latestValidHash r = ParentHash hdr \<and>
      extendingFork fv' = None \<and> extendingForkHeadHash fv' = 0"
    using ValidatePayload_validationError_INVALID by blast
  have B: "validatePayload fv = Some vp \<and> sideForksBlock fv (Hash hdr) = None \<and>
    fst (vp (case extendingFork fv of None \<Rightarrow> NewMemoryBatch tx | Some m0 \<Rightarrow> UpdateTxn m0 tx)
           hdr bdy 0 [] []) = Some e \<longrightarrow>
      (\<exists>r1 fv1. ValidatePayload fuel fv tx hdr bdy True = Some (r1, fv1) \<and>
                validationError r1 = Some e)"
  proof
    assume a: "validatePayload fv = Some vp \<and> sideForksBlock fv (Hash hdr) = None \<and>
      fst (vp (case extendingFork fv of None \<Rightarrow> NewMemoryBatch tx | Some m0 \<Rightarrow> UpdateTxn m0 tx)
             hdr bdy 0 [] []) = Some e"
    let ?m = "case extendingFork fv of None \<Rightarrow> NewMemoryBatch tx | Some m0 \<Rightarrow> UpdateTxn m0 tx"
    let ?res = "validateAndStorePayload vp
                  (fv\<lparr>extendingFork := Some ?m, extendingForkHeadHash := Hash hdr\<rparr>)
                  True ?m hdr bdy 0 [] []"
    from a have run: "ValidatePayload fuel fv tx hdr bdy True = Some (fst ?res, clean (snd ?res))"
      by (simp add: ValidatePayload_def Let_def split: prod.splits)
    from a have "validationError (fst ?res) = Some e"
      by (simp add: validateAndStorePayload_callback)
    with run show "\<exists>r1 fv1. ValidatePayload fuel fv tx hdr bdy True = Some (r1, fv1) \<and>
                  validationError r1 = Some e"
      by (intro exI conjI)
  qed
  have C: "validatePayload fv = Some vp \<and> sideForksBlock fv (Hash hdr) = None \<and>
    \<not> AbsoluteDifference (currentHeight fv) (Number hdr) > maxForkDepth \<and>
    IsCanonicalHash tx (ParentHash hdr) = Inr fc \<and>
    assembleSideFork fuel tx (sideForksBlock fv) (ParentHash hdr) fc (Number hdr - 1) [] []
      = Some (Assembled up hc bc) \<and>
    fst (vp (NewMemoryBatch tx) hdr bdy (if up = currentHeight fv then 0 else up) hc bc) = Some e \<longrightarrow>
      (\<exists>r2 fv2. ValidatePayload fuel fv tx hdr bdy False = Some (r2, fv2) \<and>
                validationError r2 = Some e)"
  proof
    assume a: "validatePayload fv = Some vp \<and> sideForksBlock fv (Hash hdr) = None \<and>
      \<not> AbsoluteDifference (currentHeight fv) (Number hdr) > maxForkDepth \<and>
      IsCanonicalHash tx (ParentHash hdr) = Inr fc \<and>
      assembleSideFork fuel tx (sideForksBlock fv) (ParentHash hdr) fc (Number hdr - 1) [] []
        = Some (Assembled up hc bc) \<and>
      fst (vp (NewMemoryBatch tx) hdr bdy (if up = currentHeight fv then 0 else up) hc bc) = Some e"
    let ?res = "validateAndStorePayload vp fv False (NewMemoryBatch tx) hdr bdy
                  (if up = currentHeight fv then 0 else up) hc bc"
    from a have run: "ValidatePayload fuel fv tx hdr bdy False = Some (fst ?res, clean (snd ?res))"
      by (simp add: ValidatePayload_def Let_def split: prod.splits)
    from a have "validationError (fst ?res) = Some e"
      by (simp add: validateAndStorePayload_callback)
    with run show "\<exists>r2 fv2. ValidatePayload fuel fv tx hdr bdy False = Some (r2, fv2) \<and>
                  validationError r2 = Some e"
      by (intro exI conjI)
  qed
  from A B C show ?thesis by (intro conjI)
qed

theorem ValidatePayload_callback_error_witness:
  "(\<exists>r fv'. ValidatePayload 0 (NewForkValidator 100 vpEcho) exTx (mkHeader 0xA1 0xA0 101)
              (Some emptyBody) True = Some (r, fv') \<and>
     validationError r = Some (ValidationFailed 0) \<and> status r = INVALID \<and>
     latestValidHash r = 0xA0 \<and> extendingFork fv' = None \<and> extendingForkHeadHash fv' = 0) \<and>
   (\<exists>r fv'. ValidatePayload 0 (stagedFv\<lparr>validatePayload := Some vpEcho\<rparr>) exTx
              (mkHeader 0xC0 0x99 100) (Some emptyBody) False = Some (r, fv') \<and>
     validationError r = Some (ValidationFailed 99) \<and> status r = INVALID \<and>
     latestValidHash r = 0x99 \<and> extendingFork fv' = None \<and> extendingForkHeadHash fv' = 0)"
proof -
  let ?fvE = "NewForkValidator 100 vpEcho"
  let ?hE = "mkHeader 0xA1 0xA0 101"
  let ?fvS = "stagedFv\<lparr>validatePayload := Some vpEcho\<rparr>"
  let ?hS = "mkHeader 0xC0 0x99 100"
  have e1: "validatePayload ?fvE = Some vpEcho \<and> sideForksBlock ?fvE (Hash ?hE) = None \<and>
    fst (vpEcho (case extendingFork ?fvE of None \<Rightarrow> NewMemoryBatch exTx
                 | Some m0 \<Rightarrow> UpdateTxn m0 exTx) ?hE (Some emptyBody) 0 [] [])
      = Some (ValidationFailed 0)"
    by (simp add: NewForkValidator_def vpEcho_def)
  from ValidatePayload_callback_error [where fuel = 0 and fv = ?fvE and tx = exTx and hdr = ?hE
      and bdy = "Some emptyBody" and vp = vpEcho and e = "ValidationFailed 0",
      THEN conjunct2, THEN conjunct1, THEN mp, OF e1]
  obtain r1 fv1 where
    run1: "ValidatePayload 0 ?fvE exTx ?hE (Some emptyBody) True = Some (r1, fv1)"
    and v1: "validationError r1 = Some (ValidationFailed 0)"
    by (elim exE conjE)
  from v1 have n1: "validationError r1 \<noteq> None" by simp
  have i1: "status r1 = INVALID \<and> latestValidHash r1 = ParentHash ?hE \<and>
            extendingFork fv1 = None \<and> extendingForkHeadHash fv1 = 0"
    by (rule ValidatePayload_callback_error [where fuel = 0 and fv = ?fvE and tx = exTx
          and hdr = ?hE and bdy = "Some emptyBody" and extendCanonical = True and r = r1
          and fv' = fv1, THEN conjunct1, THEN mp, OF conjI [OF run1 n1]])
  have p1: "ParentHash ?hE = 0xA0" by (simp add: mkHeader_def)
  have s1: "validatePayload ?fvS = Some vpEcho \<and> sideForksBlock ?fvS (Hash ?hS) = None \<and>
    \<not> AbsoluteDifference (currentHeight ?fvS) (Number ?hS) > maxForkDepth \<and>
    IsCanonicalHash exTx (ParentHash ?hS) = Inr True \<and>
    assembleSideFork 0 exTx (sideForksBlock ?fvS) (ParentHash ?hS) True (Number ?hS - 1) [] []
      = Some (Assembled 99 [] []) \<and>
    fst (vpEcho (NewMemoryBatch exTx) ?hS (Some emptyBody)
           (if 99 = currentHeight ?fvS then 0 else 99) [] []) = Some (ValidationFailed 99)"
    by (simp add: stagedFv_def NewForkValidator_def vpEcho_def mkHeader_def exTx_def
          AbsoluteDifference_def maxForkDepth_def IsCanonicalHash_def ReadCanonicalHash_def)
  from ValidatePayload_callback_error [where fuel = 0 and fv = ?fvS and tx = exTx and hdr = ?hS
      and bdy = "Some emptyBody" and vp = vpEcho and e = "ValidationFailed 99" and fc = True
      and up = 99 and hc = "[]" and bc = "[]",
      THEN conjunct2, THEN conjunct2, THEN mp, OF s1]
  obtain r2 fv2 where
    run2: "ValidatePayload 0 ?fvS exTx ?hS (Some emptyBody) False = Some (r2, fv2)"
    and v2: "validationError r2 = Some (ValidationFailed 99)"
    by (elim exE conjE)
  from v2 have n2: "validationError r2 \<noteq> None" by simp
  have i2: "status r2 = INVALID \<and> latestValidHash r2 = ParentHash ?hS \<and>
            extendingFork fv2 = None \<and> extendingForkHeadHash fv2 = 0"
    by (rule ValidatePayload_callback_error [where fuel = 0 and fv = ?fvS and tx = exTx
          and hdr = ?hS and bdy = "Some emptyBody" and extendCanonical = False and r = r2
          and fv' = fv2, THEN conjunct1, THEN mp, OF conjI [OF run2 n2]])
  have p2: "ParentHash ?hS = 0x99" by (simp add: mkHeader_def)
  have 1: "\<exists>r fv'. ValidatePayload 0 ?fvE exTx ?hE (Some emptyBody) True = Some (r, fv') \<and>
     validationError r = Some (ValidationFailed 0) \<and> status r = INVALID \<and>
     latestValidHash r = 0xA0 \<and> extendingFork fv' = None \<and> extendingForkHeadHash fv' = 0"
    using run1 v1 i1 unfolding p1
    by (intro exI [where x = r1] exI [where x = fv1]) (elim conjE, intro conjI)
  have 2: "\<exists>r fv'. ValidatePayload 0 ?fvS exTx ?hS (Some emptyBody) False = Some (r, fv') \<and>
     validationError r = Some (ValidationFailed 99) \<and> status r = INVALID \<and>
     latestValidHash r = 0x99 \<and> extendingFork fv' = None \<and> extendingForkHeadHash fv' = 0"
    using run2 v2 i2 unfolding p2
    by (intro exI [where x = r2] exI [where x = fv2]) (elim conjE, intro conjI)
  from 1 2 show ?thesis by (rule conjI)
qed

lemma assembleSideFork_Assembled:
  "assembleSideFork fuel tx cache ch fc up hc bc = Some (Assembled up' hc' bc') \<Longrightarrow>
   (fc \<and> up' = up \<and> hc' = hc \<and> bc' = bc) \<or>
   (\<not> fc \<and> (\<exists>pre. pre \<noteq> [] \<and> hc' = pre @ hc \<and> up' = Number (hd pre) - 1 \<and>
       IsCanonicalHash tx (ParentHash (hd pre)) = Inr True))"
proof (induction fuel arbitrary: ch fc up hc bc)
  case 0
  then show ?case by (simp split: if_splits)
next
  case (Suc fuel)
  show ?case
  proof (cases fc)
    case True
    with Suc.prems show ?thesis by simp
  next
    case False
    with Suc.prems obtain sb found where
      sb: "cache ch = Some sb"
      and found: "IsCanonicalHash tx (ParentHash (header sb)) = Inr found"
      and rec: "assembleSideFork fuel tx cache (ParentHash (header sb)) found
                  (Number (header sb) - 1) (header sb # hc) (body sb # bc)
                = Some (Assembled up' hc' bc')"
      by (auto split: option.splits sum.splits if_splits)
    from Suc.IH [OF rec] show ?thesis
    proof
      assume "found \<and> up' = Number (header sb) - 1 \<and> hc' = header sb # hc \<and> bc' = body sb # bc"
      then have "[header sb] \<noteq> [] \<and> hc' = [header sb] @ hc \<and>
         up' = Number (hd [header sb]) - 1 \<and>
         IsCanonicalHash tx (ParentHash (hd [header sb])) = Inr True"
        using found by simp
      then show ?thesis using False by blast
    next
      assume "\<not> found \<and> (\<exists>pre. pre \<noteq> [] \<and> hc' = pre @ header sb # hc \<and>
          up' = Number (hd pre) - 1 \<and> IsCanonicalHash tx (ParentHash (hd pre)) = Inr True)"
      then obtain pre where "pre \<noteq> []" "hc' = pre @ header sb # hc"
        "up' = Number (hd pre) - 1" "IsCanonicalHash tx (ParentHash (hd pre)) = Inr True"
        by blast
      then have "pre @ [header sb] \<noteq> [] \<and> hc' = (pre @ [header sb]) @ hc \<and>
         up' = Number (hd (pre @ [header sb])) - 1 \<and>
         IsCanonicalHash tx (ParentHash (hd (pre @ [header sb]))) = Inr True"
        by simp
      then show ?thesis using False by blast
    qed
  qed
qed

lemma IsCanonicalHash_True:
  "IsCanonicalHash tx a = Inr True \<Longrightarrow> \<exists>n. headerNumbers tx a = Some n \<and> canonical tx n = Some a"
  by (auto simp: IsCanonicalHash_def ReadCanonicalHash_def
           split: option.splits if_splits sum.splits)

text \<open>
  C1, as the code has it. On the side-fork path, when the backward walk ends with the
  chain \<open>hc\<close>, the oldest block of the path is the first of \<open>hc\<close>, or the header itself when
  \<open>hc\<close> is empty. Its parent is the ancestor the walk stopped at, canonical at some height
  \<open>n\<close>. The unwind point the walk computes is the oldest block's number minus one, which
  is \<open>n\<close> (not \<open>n + 1\<close>) when that block is numbered \<open>n + 1\<close>; \<open>ValidatePayload\<close> passes it to
  the callback, replaced by 0 when it equals \<open>currentHeight\<close>.
\<close>

theorem ValidatePayload_unwindPoint:
  assumes vp: "validatePayload fv = Some vp"
      and fresh: "sideForksBlock fv (Hash hdr) = None"
      and range: "\<not> AbsoluteDifference (currentHeight fv) (Number hdr) > maxForkDepth"
      and fc: "IsCanonicalHash tx (ParentHash hdr) = Inr fc"
      and walk: "assembleSideFork fuel tx (sideForksBlock fv) (ParentHash hdr) fc
                   (Number hdr - 1) [] [] = Some (Assembled up hc bc)"
  shows "\<exists>n. headerNumbers tx (ParentHash (hd (hc @ [hdr]))) = Some n \<and>
             canonical tx n = Some (ParentHash (hd (hc @ [hdr]))) \<and>
             up = Number (hd (hc @ [hdr])) - 1 \<and>
             (Number (hd (hc @ [hdr])) = n + 1 \<longrightarrow> up = n) \<and>
             ValidatePayload fuel fv tx hdr bdy False =
               Some (case validateAndStorePayload vp fv False (NewMemoryBatch tx) hdr bdy
                            (if up = currentHeight fv then 0 else up) hc bc of
                       (r, fv') \<Rightarrow> (r, clean fv'))"
proof -
  from assembleSideFork_Assembled [OF walk] fc
  have a: "IsCanonicalHash tx (ParentHash (hd (hc @ [hdr]))) = Inr True"
    and b: "up = Number (hd (hc @ [hdr])) - 1"
    by auto
  from IsCanonicalHash_True [OF a] obtain n where
    n: "headerNumbers tx (ParentHash (hd (hc @ [hdr]))) = Some n"
       "canonical tx n = Some (ParentHash (hd (hc @ [hdr])))" by blast
  have c: "ValidatePayload fuel fv tx hdr bdy False =
               Some (case validateAndStorePayload vp fv False (NewMemoryBatch tx) hdr bdy
                            (if up = currentHeight fv then 0 else up) hc bc of
                       (r, fv') \<Rightarrow> (r, clean fv'))"
    using vp fresh range fc walk by (simp add: ValidatePayload_def Let_def)
  from n b c show ?thesis by auto
qed

lemma exFv_walk:
  "assembleSideFork 1 exTx (sideForksBlock exFv) 0xC0 False 100 [] []
   = Some (Assembled 99 [mkHeader 0xC0 0x99 100] [emptyBody])"
  by (simp add: exFv_def NewForkValidator_def exTx_def mkHeader_def Has_BlockBody_def
        IsCanonicalHash_def ReadCanonicalHash_def)

theorem ValidatePayload_unwindPoint_witness:
  "map_option fst (ValidatePayload 1 exFv exTx (mkHeader 0xC1 0xC0 101) (Some emptyBody) False)
     = Some \<lparr>status = INVALID, latestValidHash = 0xC0,
             validationError = Some (ValidationFailed 99), criticalError = None\<rparr> \<and>
   headerNumbers exTx 0x99 = Some 99 \<and> canonical exTx 99 = Some 0x99"
proof -
  have vp: "validatePayload exFv = Some vpEcho"
    by (simp add: exFv_def NewForkValidator_def)
  have fresh: "sideForksBlock exFv (Hash (mkHeader 0xC1 0xC0 101)) = None"
    by (simp add: exFv_def NewForkValidator_def mkHeader_def)
  have range: "\<not> AbsoluteDifference (currentHeight exFv) (Number (mkHeader 0xC1 0xC0 101))
                   > maxForkDepth"
    by (simp add: exFv_def NewForkValidator_def mkHeader_def AbsoluteDifference_def
          maxForkDepth_def)
  have fc: "IsCanonicalHash exTx (ParentHash (mkHeader 0xC1 0xC0 101)) = Inr False"
    by (simp add: exTx_def mkHeader_def IsCanonicalHash_def)
  have walk: "assembleSideFork 1 exTx (sideForksBlock exFv) (ParentHash (mkHeader 0xC1 0xC0 101))
                False (Number (mkHeader 0xC1 0xC0 101) - 1) [] []
              = Some (Assembled 99 [mkHeader 0xC0 0x99 100] [emptyBody])"
    using exFv_walk by (simp add: mkHeader_def)
  from ValidatePayload_unwindPoint [OF vp fresh range fc walk, of "Some emptyBody"]
  show ?thesis
    by (auto simp: validateAndStorePayload_def vpEcho_def exFv_def NewForkValidator_def
          mkHeader_def exTx_def)
qed

text \<open>
  C1 as the spec states it fails. The head is at height 100 and the payload \<open>0xC0\<close> is a
  competing block 100 whose parent \<open>0x99\<close> is canonical at height \<open>n = 99\<close>. By the claim the
  unwind point would be \<open>n + 1 = 100\<close>, which equals \<open>currentHeight\<close> and would be
  normalized to 0. The callback \<open>vpEcho\<close> reports the unwind point it receives: it is 99.
\<close>

theorem ValidatePayload_unwindPoint_counterexample:
  "IsCanonicalHash exTx 0x99 = Inr True \<and> headerNumbers exTx 0x99 = Some 99 \<and>
   canonical exTx 99 = Some 0x99 \<and>
   currentHeight (NewForkValidator 100 vpEcho) = 99 + 1 \<and>
   map_option fst (ValidatePayload 0 (NewForkValidator 100 vpEcho) exTx (mkHeader 0xC0 0x99 100)
                     (Some emptyBody) False)
     = Some \<lparr>status = INVALID, latestValidHash = 0x99,
             validationError = Some (ValidationFailed 99), criticalError = None\<rparr>"
  by (simp add: ValidatePayload_def NewForkValidator_def vpEcho_def exTx_def mkHeader_def
        emptyBody_def AbsoluteDifference_def maxForkDepth_def IsCanonicalHash_def
        ReadCanonicalHash_def validateAndStorePayload_def NewMemoryBatch_def)

text \<open>
  C3. The code's own comment on \<open>sideForksBlock\<close> requires every saved block to be within
  \<open>maxForkDepth\<close> of the head, and \<open>ValidatePayload\<close> and \<open>TryAddingPoWBlock\<close> prune with
  \<open>clean\<close>. \<open>NotifyCurrentHeight\<close> moves the head without pruning: a validator at height
  100 that holds block 68 (distance 32, kept by \<open>clean\<close>) still holds it after
  \<open>NotifyCurrentHeight(101)\<close>, at distance 33.
\<close>

theorem NotifyCurrentHeight_stale_segment:
  "sideForksBlock (TryAddingPoWBlock (NewForkValidatorMock 100)
       \<lparr>blockHeader = mkHeader 0x68 0x67 68, blockRawBody = emptyBody\<rparr>) 0x68
     = Some \<lparr>header = mkHeader 0x68 0x67 68, body = emptyBody\<rparr> \<and>
   sideForksBlock (NotifyCurrentHeight (TryAddingPoWBlock (NewForkValidatorMock 100)
       \<lparr>blockHeader = mkHeader 0x68 0x67 68, blockRawBody = emptyBody\<rparr>) 101) 0x68
     = Some \<lparr>header = mkHeader 0x68 0x67 68, body = emptyBody\<rparr> \<and>
   currentHeight (NotifyCurrentHeight (TryAddingPoWBlock (NewForkValidatorMock 100)
       \<lparr>blockHeader = mkHeader 0x68 0x67 68, blockRawBody = emptyBody\<rparr>) 101) = 101 \<and>
   AbsoluteDifference 101 (Number (mkHeader 0x68 0x67 68)) = 33 \<and>
   AbsoluteDifference 101 (Number (mkHeader 0x68 0x67 68)) > maxForkDepth"
  by (simp add: TryAddingPoWBlock_def NewForkValidatorMock_def NotifyCurrentHeight_def clean_def
        mkHeader_def AbsoluteDifference_def maxForkDepth_def)

text \<open>
  C4, as the code has it. When an overlay exists, the accumulator is present and the
  staged head (a non-zero hash) is in the cache, \<open>ClearWithUnwind\<close> rebinds the overlay to
  \<open>tx\<close> and reads through it at height (staged head number - 1). If the canonical hash, the
  header there and the transaction range are read and the header has a base fee, the
  accumulator receives \<open>Reset(0)\<close>, \<open>StartChange\<close> with the unwind flag and \<open>SendAndReset\<close>.
  If one of the three reads fails, the accumulator receives nothing. Whenever the call
  returns, the validator is left without overlay and staged head.
\<close>

theorem ClearWithUnwind_replay:
  assumes ov: "extendingFork fv = Some m"
      and sb: "sideForksBlock fv (extendingForkHeadHash fv) = Some sb"
      and nz: "extendingForkHeadHash fv \<noteq> 0"
  shows "(ReadCanonicalHash (ovView (UpdateTxn m tx)) (Number (header sb) - 1) = Inr h \<and>
          ReadHeader (ovView (UpdateTxn m tx)) h (Number (header sb) - 1) = Some hdr \<and>
          rawTransactionsRange (ovView (UpdateTxn m tx)) (Number (header sb) - 1)
            (Number (header sb) - 1 + 1) = Inr txs \<and>
          BaseFee hdr = Some baseFee \<longrightarrow>
          ClearWithUnwind rawTransactionsRange fv tx (Some acc) c =
            Inr (fv\<lparr>extendingFork := None, extendingForkHeadHash := 0\<rparr>,
                 Some (acc @ [Reset 0, StartChange (Number (header sb) - 1) h txs True,
                              SendAndReset c baseFee (GasLimit hdr)]))) \<and>
         (ReadCanonicalHash (ovView (UpdateTxn m tx)) (Number (header sb) - 1) = Inl e \<or>
          (ReadCanonicalHash (ovView (UpdateTxn m tx)) (Number (header sb) - 1) = Inr h \<and>
           ReadHeader (ovView (UpdateTxn m tx)) h (Number (header sb) - 1) = None) \<or>
          (ReadCanonicalHash (ovView (UpdateTxn m tx)) (Number (header sb) - 1) = Inr h \<and>
           ReadHeader (ovView (UpdateTxn m tx)) h (Number (header sb) - 1) = Some hdr \<and>
           rawTransactionsRange (ovView (UpdateTxn m tx)) (Number (header sb) - 1)
             (Number (header sb) - 1 + 1) = Inl e) \<longrightarrow>
          ClearWithUnwind rawTransactionsRange fv tx (Some acc) c =
            Inr (fv\<lparr>extendingFork := None, extendingForkHeadHash := 0\<rparr>, Some acc)) \<and>
         (ClearWithUnwind rawTransactionsRange fv tx (Some acc) c = Inr (fv', acc') \<longrightarrow>
            fv' = fv\<lparr>extendingFork := None, extendingForkHeadHash := 0\<rparr>)"
  using assms
  by (auto simp: ClearWithUnwind_def notifyTxPool_def clear_def Let_def
           split: option.splits sum.splits)

theorem ClearWithUnwind_replay_witness:
  "map_sum id snd (ClearWithUnwind noTransactions stagedFv exTx (Some []) 5)
     = Inr (Some [Reset 0, StartChange 100 0xA0 [] True, SendAndReset 5 7 30000000]) \<and>
   map_sum id snd
       (ClearWithUnwind noTransactions stagedFv (exTx\<lparr>faulty := (\<lambda>t. t = HeaderCanonical)\<rparr>)
          (Some []) 5)
     = Inr (Some [])"
proof -
  let ?sb = "\<lparr>header = mkHeader 0xA1 0xA0 101, body = emptyBody\<rparr>"
  let ?m = "NewMemoryBatch exTx"
  let ?bad = "exTx\<lparr>faulty := (\<lambda>t. t = HeaderCanonical)\<rparr>"
  have ov: "extendingFork stagedFv = Some ?m" by (simp add: stagedFv_def)
  have sb: "sideForksBlock stagedFv (extendingForkHeadHash stagedFv) = Some ?sb"
    by (simp add: stagedFv_def)
  have nz: "extendingForkHeadHash stagedFv \<noteq> 0" by (simp add: stagedFv_def)
  have num: "Number (header ?sb) - 1 = 100" by (simp add: mkHeader_def)
  have view: "ovView (UpdateTxn ?m exTx) = exTx"
    by (simp add: NewMemoryBatch_def UpdateTxn_def ovView_def)
  have view': "ovView (UpdateTxn ?m ?bad) = ?bad"
    by (simp add: NewMemoryBatch_def UpdateTxn_def ovView_def)
  have r1: "ReadCanonicalHash (ovView (UpdateTxn ?m exTx)) (Number (header ?sb) - 1) = Inr 0xA0"
    unfolding view num by (simp add: ReadCanonicalHash_def exTx_def)
  have r2: "ReadHeader (ovView (UpdateTxn ?m exTx)) 0xA0 (Number (header ?sb) - 1)
            = Some (mkHeader 0xA0 0x99 100)"
    unfolding view num by (simp add: ReadHeader_def exTx_def)
  have r3: "noTransactions (ovView (UpdateTxn ?m exTx)) (Number (header ?sb) - 1)
              (Number (header ?sb) - 1 + 1) = Inr []"
    by (simp add: noTransactions_def)
  have r4: "BaseFee (mkHeader 0xA0 0x99 100) = Some 7" by (simp add: mkHeader_def)
  have f1: "ReadCanonicalHash (ovView (UpdateTxn ?m ?bad)) (Number (header ?sb) - 1)
            = Inl (IOError HeaderCanonical)"
    unfolding view' by (simp add: ReadCanonicalHash_def)
  have "ClearWithUnwind noTransactions stagedFv exTx (Some []) 5 =
            Inr (stagedFv\<lparr>extendingFork := None, extendingForkHeadHash := 0\<rparr>,
                 Some ([] @ [Reset 0, StartChange (Number (header ?sb) - 1) 0xA0 [] True,
                              SendAndReset 5 7 (GasLimit (mkHeader 0xA0 0x99 100))]))"
    using ClearWithUnwind_replay [OF ov sb nz, where tx = exTx and h = "0xA0"
         and hdr = "mkHeader 0xA0 0x99 100" and rawTransactionsRange = noTransactions
         and txs = "[]" and baseFee = 7 and acc = "[]" and c = 5]
      r1 r2 r3 r4 by blast
  then have 1: "map_sum id snd (ClearWithUnwind noTransactions stagedFv exTx (Some []) 5)
     = Inr (Some [Reset 0, StartChange 100 0xA0 [] True, SendAndReset 5 7 30000000])"
    unfolding num by (simp add: mkHeader_def)
  have "ClearWithUnwind noTransactions stagedFv ?bad (Some []) 5 =
            Inr (stagedFv\<lparr>extendingFork := None, extendingForkHeadHash := 0\<rparr>, Some [])"
    using ClearWithUnwind_replay [OF ov sb nz, where tx = ?bad and e = "IOError HeaderCanonical"
         and rawTransactionsRange = noTransactions and acc = "[]" and c = 5]
      f1 by blast
  then have 2: "map_sum id snd (ClearWithUnwind noTransactions stagedFv ?bad (Some []) 5)
     = Inr (Some [])"
    by simp
  from 1 2 show ?thesis by (rule conjI)
qed

text \<open>
  C4 as stated fails: the three conditions hold for \<open>stagedFv\<close>, but the transaction handed
  to \<open>ClearWithUnwind\<close> has no header row for the canonical block below the staged head.
  \<open>notifyTxPool\<close> returns its error, which is only logged, and the accumulator receives
  nothing.
\<close>

theorem ClearWithUnwind_replay_counterexample:
  "extendingFork stagedFv \<noteq> None \<and>
   sideForksBlock stagedFv (extendingForkHeadHash stagedFv) \<noteq> None \<and>
   map_sum id snd (ClearWithUnwind noTransactions stagedFv (exTx\<lparr>headerRows := []\<rparr>) (Some []) 5)
     = Inr (Some [])"
  by (simp add: ClearWithUnwind_def notifyTxPool_def stagedFv_def NewForkValidator_def exTx_def
        NewMemoryBatch_def UpdateTxn_def ovView_def ReadCanonicalHash_def ReadHeader_def
        mkHeader_def clear_def)

lemma validateAndStorePayload_overlay:
  "validateAndStorePayload vp fv al m hdr bdy up hc bc = (r, fv') \<Longrightarrow>
   (al \<longrightarrow> extendingForkHeadHash fv = Hash hdr \<and> Hash hdr \<noteq> 0) \<Longrightarrow>
   (\<not> al \<longrightarrow> overlayInvariant fv) \<Longrightarrow>
   overlayInvariant fv'"
  by (auto simp: validateAndStorePayload_def Let_def overlayInvariant_def
           split: prod.splits option.splits sum.splits if_splits)

lemma overlayInvariant_clean: "overlayInvariant (clean fv) = overlayInvariant fv"
  by (simp add: overlayInvariant_def clean_fields)

lemma ValidatePayload_overlay:
  assumes "overlayInvariant fv"
      and "ValidatePayload fuel fv tx hdr bdy ext = Some (r, fv')"
      and "Hash hdr \<noteq> 0"
  shows "overlayInvariant fv'"
  using assms
  by (auto simp: ValidatePayload_def Let_def overlayInvariant_clean
           split: option.splits if_splits sum.splits assembled.splits
           dest!: validateAndStorePayload_overlay)

lemma FlushExtendingFork_overlay:
  "FlushExtendingFork fv tx = Inr (e, tx', fv') \<Longrightarrow> overlayInvariant fv \<Longrightarrow> overlayInvariant fv'"
  by (auto simp: FlushExtendingFork_def overlayInvariant_def split: option.splits sum.splits)

lemma ClearWithUnwind_overlay:
  "ClearWithUnwind rtr fv tx acc c = Inr (fv', acc') \<Longrightarrow> overlayInvariant fv'"
  by (auto simp: ClearWithUnwind_def overlayInvariant_def clear_def Let_def
           split: option.splits sum.splits if_splits prod.splits)

lemma NotifyCurrentHeight_overlay: "overlayInvariant (NotifyCurrentHeight fv h)"
  by (simp add: NotifyCurrentHeight_def overlayInvariant_def)

lemma TryAddingPoWBlock_overlay:
  "overlayInvariant (TryAddingPoWBlock fv b) = overlayInvariant fv"
  by (simp add: TryAddingPoWBlock_def overlayInvariant_def clean_fields)

text \<open>
  C5. A new validator has neither overlay nor staged head hash, and every operation of
  the validator that returns leaves the two both set or both cleared, provided they
  were so before. The staged head hash
  is the hash of a header, and a header hash (a Keccak digest) is taken to be non-zero:
  the source itself uses the zero hash for ``nothing staged''.
\<close>

theorem overlayInvariant_preserved:
  assumes "overlayInvariant fv"
  shows "(ValidatePayload fuel fv tx hdr bdy extendCanonical = Some (r, fv1) \<and> Hash hdr \<noteq> 0 \<longrightarrow>
            overlayInvariant fv1) \<and>
         (FlushExtendingFork fv tx = Inr (e, tx', fv2) \<longrightarrow> overlayInvariant fv2) \<and>
         (ClearWithUnwind rawTransactionsRange fv tx acc c = Inr (fv3, acc') \<longrightarrow>
            overlayInvariant fv3) \<and>
         overlayInvariant (NotifyCurrentHeight fv h) \<and>
         overlayInvariant (TryAddingPoWBlock fv block) \<and>
         overlayInvariant (NewForkValidator h0 vp0) \<and>
         overlayInvariant (NewForkValidatorMock h0)"
proof (intro conjI impI)
  assume "ValidatePayload fuel fv tx hdr bdy extendCanonical = Some (r, fv1) \<and> Hash hdr \<noteq> 0"
  with assms show "overlayInvariant fv1" by (blast intro: ValidatePayload_overlay)
next
  assume "FlushExtendingFork fv tx = Inr (e, tx', fv2)"
  with assms show "overlayInvariant fv2" by (rule FlushExtendingFork_overlay [rotated])
next
  assume "ClearWithUnwind rawTransactionsRange fv tx acc c = Inr (fv3, acc')"
  then show "overlayInvariant fv3" by (rule ClearWithUnwind_overlay)
next
  show "overlayInvariant (NotifyCurrentHeight fv h)" by (rule NotifyCurrentHeight_overlay)
next
  from assms show "overlayInvariant (TryAddingPoWBlock fv block)"
    by (simp add: TryAddingPoWBlock_overlay)
next
  show "overlayInvariant (NewForkValidator h0 vp0)"
    by (simp add: overlayInvariant_def NewForkValidator_def)
next
  show "overlayInvariant (NewForkValidatorMock h0)"
    by (simp add: overlayInvariant_def NewForkValidatorMock_def)
qed

theorem overlayInvariant_preserved_witness:
  "overlayInvariant stagedFv \<and>
   (\<exists>r fv1. ValidatePayload 0 stagedFv exTx (mkHeader 0xA2 0xA1 102) (Some emptyBody) True
               = Some (r, fv1) \<and>
       extendingFork fv1 \<noteq> None \<and> extendingForkHeadHash fv1 = 0xA2 \<and> overlayInvariant fv1) \<and>
   (\<exists>e tx' fv2. FlushExtendingFork stagedFv exTx = Inr (e, tx', fv2) \<and>
       extendingFork fv2 = None \<and> overlayInvariant fv2) \<and>
   (\<exists>fv3 acc'. ClearWithUnwind noTransactions stagedFv exTx (Some []) 5 = Inr (fv3, acc') \<and>
       extendingFork fv3 = None \<and> overlayInvariant fv3) \<and>
   overlayInvariant (NotifyCurrentHeight stagedFv 101) \<and>
   overlayInvariant (TryAddingPoWBlock stagedFv
      \<lparr>blockHeader = mkHeader 0xB0 0x99 100, blockRawBody = emptyBody\<rparr>)"
proof -
  have inv: "overlayInvariant stagedFv"
    by (simp add: overlayInvariant_def stagedFv_def)
  define V where
    "V = the (ValidatePayload 0 stagedFv exTx (mkHeader 0xA2 0xA1 102) (Some emptyBody) True)"
  have v: "ValidatePayload 0 stagedFv exTx (mkHeader 0xA2 0xA1 102) (Some emptyBody) True
           = Some (fst V, snd V)"
    "extendingFork (snd V) \<noteq> None" "extendingForkHeadHash (snd V) = 0xA2"
    unfolding V_def
    by (simp_all add: ValidatePayload_def stagedFv_def NewForkValidator_def Let_def
          validateAndStorePayload_def vpOk_def mkHeader_def clean_fields)
  have hz: "Hash (mkHeader 0xA2 0xA1 102) \<noteq> 0" by (simp add: mkHeader_def)
  define F where "F = projr (FlushExtendingFork stagedFv exTx)"
  have f: "FlushExtendingFork stagedFv exTx = Inr (fst F, fst (snd F), snd (snd F))"
    "extendingFork (snd (snd F)) = None"
    unfolding F_def
    by (simp_all add: FlushExtendingFork_def stagedFv_def Flush_def NewMemoryBatch_def)
  define C where "C = projr (ClearWithUnwind noTransactions stagedFv exTx (Some []) 5)"
  have c: "ClearWithUnwind noTransactions stagedFv exTx (Some []) 5 = Inr (fst C, snd C)"
    "extendingFork (fst C) = None"
    unfolding C_def
    by (simp_all add: ClearWithUnwind_def notifyTxPool_def stagedFv_def NewForkValidator_def
          exTx_def NewMemoryBatch_def UpdateTxn_def ovView_def ReadCanonicalHash_def
          ReadHeader_def mkHeader_def clear_def noTransactions_def)
  note t = overlayInvariant_preserved [OF inv, where fuel = 0 and tx = exTx
      and hdr = "mkHeader 0xA2 0xA1 102" and bdy = "Some emptyBody" and extendCanonical = True
      and r = "fst V" and ?fv1.0 = "snd V" and e = "fst F" and tx' = "fst (snd F)"
      and ?fv2.0 = "snd (snd F)" and rawTransactionsRange = noTransactions and acc = "Some []"
      and c = 5 and ?fv3.0 = "fst C" and acc' = "snd C" and h = 101
      and block = "\<lparr>blockHeader = mkHeader 0xB0 0x99 100, blockRawBody = emptyBody\<rparr>"]
  from t v hz have 1: "overlayInvariant (snd V)" by blast
  from t f have 2: "overlayInvariant (snd (snd F))" by blast
  from t c have 3: "overlayInvariant (fst C)" by blast
  from t have 4: "overlayInvariant (NotifyCurrentHeight stagedFv 101)"
    "overlayInvariant (TryAddingPoWBlock stagedFv
       \<lparr>blockHeader = mkHeader 0xB0 0x99 100, blockRawBody = emptyBody\<rparr>)"
    by blast+
  from inv v 1 f 2 c 3 4 show ?thesis by blast
qed

subsection \<open>Further properties of the fork validator\<close>

lemma sideForkInvariant_clean: "sideForkInvariant (clean fv)"
  by (auto simp: sideForkInvariant_def clean_def split: option.splits if_splits)

text \<open>
  Pruning: after a \<open>ValidatePayload\<close> call on a validator that has a callback, and after
  \<open>TryAddingPoWBlock\<close>, every cached segment is within \<open>maxForkDepth\<close> of the current height.
\<close>

theorem sideForkInvariant_established:
  "(validatePayload fv \<noteq> None \<and> ValidatePayload fuel fv tx hdr bdy extendCanonical = Some (r, fv')
      \<longrightarrow> sideForkInvariant fv') \<and>
   sideForkInvariant (TryAddingPoWBlock fv block)"
  by (auto simp: ValidatePayload_def TryAddingPoWBlock_def sideForkInvariant_clean
           split: option.splits)

theorem sideForkInvariant_established_witness:
  "validatePayload stagedFv \<noteq> None \<and>
   (\<exists>r fv'. ValidatePayload 0 stagedFv exTx (mkHeader 0xF0 0xEF 300) (Some emptyBody) True = Some (r, fv') \<and>
      status r = VALID \<and> sideForksBlock fv' 0xF0 = None \<and> sideForkInvariant fv') \<and>
   sideForkInvariant (TryAddingPoWBlock stagedFv \<lparr>blockHeader = mkHeader 0xB0 0x99 100, blockRawBody = emptyBody\<rparr>)"
proof -
  define V where "V = the (ValidatePayload 0 stagedFv exTx (mkHeader 0xF0 0xEF 300) (Some emptyBody) True)"
  have cb: "validatePayload stagedFv \<noteq> None" by (simp add: stagedFv_def NewForkValidator_def)
  have v: "ValidatePayload 0 stagedFv exTx (mkHeader 0xF0 0xEF 300) (Some emptyBody) True = Some (fst V, snd V)"
    "status (fst V) = VALID" "sideForksBlock (snd V) 0xF0 = None"
    unfolding V_def
    by (simp_all add: ValidatePayload_def stagedFv_def NewForkValidator_def Let_def
          validateAndStorePayload_def vpOk_def mkHeader_def clean_def AbsoluteDifference_def maxForkDepth_def)
  note t = sideForkInvariant_established [where fv = stagedFv and fuel = 0 and tx = exTx
      and hdr = "mkHeader 0xF0 0xEF 300" and bdy = "Some emptyBody" and extendCanonical = True
      and r = "fst V" and fv' = "snd V"
      and block = "\<lparr>blockHeader = mkHeader 0xB0 0x99 100, blockRawBody = emptyBody\<rparr>"]
  from t cb v(1) have 1: "sideForkInvariant (snd V)" by (elim conjE impE) (rule conjI)
  from t have 2: "sideForkInvariant (TryAddingPoWBlock stagedFv \<lparr>blockHeader = mkHeader 0xB0 0x99 100, blockRawBody = emptyBody\<rparr>)"
    by (rule conjunct2)
  from v 1 have "\<exists>r fv'. ValidatePayload 0 stagedFv exTx (mkHeader 0xF0 0xEF 300) (Some emptyBody) True = Some (r, fv') \<and>
      status r = VALID \<and> sideForksBlock fv' 0xF0 = None \<and> sideForkInvariant fv'"
    by (intro exI [where x = "fst V"] exI [where x = "snd V"] conjI)
  with cb 2 show ?thesis by (intro conjI)
qed

text \<open>
  A header whose hash is cached is reported \<open>VALID\<close> with its own hash, without a call of
  the callback; the validator is only pruned.
\<close>

theorem ValidatePayload_cached:
  assumes "validatePayload fv = Some vp" and "sideForksBlock fv (Hash hdr) = Some sb"
  shows "ValidatePayload fuel fv tx hdr bdy extendCanonical =
           Some (\<lparr>status = VALID, latestValidHash = Hash hdr, validationError = None, criticalError = None\<rparr>,
                 clean fv)"
  using assms by (simp add: ValidatePayload_def noResult_def)

theorem ValidatePayload_cached_witness:
  "map_option fst (ValidatePayload 0 stagedFv exTx (mkHeader 0xA1 0xA0 101) None False)
     = Some \<lparr>status = VALID, latestValidHash = 0xA1, validationError = None, criticalError = None\<rparr>"
proof -
  have a: "validatePayload stagedFv = Some vpOk" by (simp add: stagedFv_def NewForkValidator_def)
  have b: "sideForksBlock stagedFv (Hash (mkHeader 0xA1 0xA0 101))
           = Some \<lparr>header = mkHeader 0xA1 0xA0 101, body = emptyBody\<rparr>"
    by (simp add: stagedFv_def mkHeader_def)
  from ValidatePayload_cached [OF a b, of 0 exTx None False] show ?thesis
    by (simp add: mkHeader_def)
qed

text \<open>
  Canonical extension: when the callback accepts a payload that comes with its body, the
  result is \<open>VALID\<close> with the header's hash, the overlay the callback wrote to is retained
  and the header is the staged head; the payload is cached unless pruning removes it.
\<close>

theorem ValidatePayload_extend_valid:
  assumes "validatePayload fv = Some vp" and "sideForksBlock fv (Hash hdr) = None"
      and "vp (case extendingFork fv of None \<Rightarrow> NewMemoryBatch tx | Some m0 \<Rightarrow> UpdateTxn m0 tx)
             hdr (Some b) 0 [] [] = (None, m')"
  shows "\<exists>fv'. ValidatePayload fuel fv tx hdr (Some b) True =
           Some (\<lparr>status = VALID, latestValidHash = Hash hdr, validationError = None,
                   criticalError = None\<rparr>, fv') \<and>
           extendingFork fv' = Some m' \<and> extendingForkHeadHash fv' = Hash hdr \<and>
           sideForksBlock fv' (Hash hdr) =
             (if AbsoluteDifference (currentHeight fv) (Number hdr) > maxForkDepth then None
              else Some \<lparr>header = hdr, body = b\<rparr>)"
  using assms
  by (simp add: ValidatePayload_def validateAndStorePayload_def Let_def clean_def)

theorem ValidatePayload_extend_valid_witness:
  "\<exists>fv'. ValidatePayload 0 (NewForkValidator 100 vpOk) exTx (mkHeader 0xA1 0xA0 101) (Some emptyBody) True =
           Some (\<lparr>status = VALID, latestValidHash = 0xA1, validationError = None,
                   criticalError = None\<rparr>, fv') \<and>
           extendingFork fv' = Some (NewMemoryBatch exTx) \<and> extendingForkHeadHash fv' = 0xA1 \<and>
           sideForksBlock fv' 0xA1 = Some \<lparr>header = mkHeader 0xA1 0xA0 101, body = emptyBody\<rparr>"
proof -
  let ?fv = "NewForkValidator 100 vpOk"
  let ?h = "mkHeader 0xA1 0xA0 101"
  have a: "validatePayload ?fv = Some vpOk" by (simp add: NewForkValidator_def)
  have b: "sideForksBlock ?fv (Hash ?h) = None" by (simp add: NewForkValidator_def)
  have c: "vpOk (case extendingFork ?fv of None \<Rightarrow> NewMemoryBatch exTx | Some m0 \<Rightarrow> UpdateTxn m0 exTx)
             ?h (Some emptyBody) 0 [] [] = (None, NewMemoryBatch exTx)"
    by (simp add: NewForkValidator_def vpOk_def)
  have d: "\<not> AbsoluteDifference (currentHeight ?fv) (Number ?h) > maxForkDepth"
    by (simp add: NewForkValidator_def mkHeader_def AbsoluteDifference_def maxForkDepth_def)
  have e: "Hash ?h = 0xA1" by (simp add: mkHeader_def)
  from ValidatePayload_extend_valid [OF a b c, of 0] d show ?thesis
    unfolding e by (simp only: if_False)
qed

text \<open>
  A side-fork payload further than \<open>maxForkDepth\<close> from the current height is \<open>ACCEPTED\<close>
  without a call of the callback.
\<close>

theorem ValidatePayload_out_of_range:
  assumes "validatePayload fv = Some vp" and "sideForksBlock fv (Hash hdr) = None"
      and "AbsoluteDifference (currentHeight fv) (Number hdr) > maxForkDepth"
  shows "ValidatePayload fuel fv tx hdr bdy False =
           Some (\<lparr>status = ACCEPTED, latestValidHash = 0, validationError = None, criticalError = None\<rparr>, clean fv)"
  using assms by (simp add: ValidatePayload_def noResult_def)

theorem ValidatePayload_out_of_range_witness:
  "map_option fst (ValidatePayload 0 (NewForkValidator 1000 vpEcho) exTx (mkHeader 0x90 0x8F 900) None False)
     = Some \<lparr>status = ACCEPTED, latestValidHash = 0, validationError = None, criticalError = None\<rparr>"
proof -
  let ?fv = "NewForkValidator 1000 vpEcho"
  let ?h = "mkHeader 0x90 0x8F 900"
  have a: "validatePayload ?fv = Some vpEcho" by (simp add: NewForkValidator_def)
  have b: "sideForksBlock ?fv (Hash ?h) = None" by (simp add: NewForkValidator_def)
  have c: "AbsoluteDifference (currentHeight ?fv) (Number ?h) > maxForkDepth"
    by (simp add: NewForkValidator_def mkHeader_def AbsoluteDifference_def maxForkDepth_def)
  from ValidatePayload_out_of_range [OF a b c, of 0 exTx None] show ?thesis by simp
qed

text \<open>
  Flush: when the overlay flushes, its captured writes are applied to the transaction and
  the validator is left without overlay and staged head; cache and height are kept.
\<close>

theorem FlushExtendingFork_flushes:
  assumes "extendingFork fv = Some m" and "Flush m tx = Inr tx'"
  shows "\<exists>fv'. FlushExtendingFork fv tx = Inr (None, tx', fv') \<and> tx' = ovWrites m tx \<and>
           extendingFork fv' = None \<and> extendingForkHeadHash fv' = 0 \<and>
           sideForksBlock fv' = sideForksBlock fv \<and> currentHeight fv' = currentHeight fv"
  using assms by (auto simp: FlushExtendingFork_def Flush_def split: if_splits)

theorem FlushExtendingFork_flushes_witness:
  "\<exists>tx' fv'. FlushExtendingFork (stagedFv\<lparr>extendingFork := Some writingOverlay\<rparr>) exTx = Inr (None, tx', fv') \<and>
      headHeaderHash tx' = Some 0xA1 \<and> extendingFork fv' = None \<and> extendingForkHeadHash fv' = 0"
proof -
  let ?fv = "stagedFv\<lparr>extendingFork := Some writingOverlay\<rparr>"
  let ?t = "exTx\<lparr>headHeaderHash := Some 0xA1\<rparr>"
  have a: "extendingFork ?fv = Some writingOverlay" by simp
  have b: "Flush writingOverlay exTx = Inr ?t" by (simp add: Flush_def writingOverlay_def)
  from FlushExtendingFork_flushes [OF a b] obtain fv' where
    "FlushExtendingFork ?fv exTx = Inr (None, ?t, fv')" "extendingFork fv' = None"
    "extendingForkHeadHash fv' = 0"
    by (elim exE conjE)
  moreover have "headHeaderHash ?t = Some 0xA1" by simp
  ultimately show ?thesis by (intro exI [where x = ?t] exI [where x = fv'] conjI)
qed

section \<open>Properties of the stages\<close>











lemma TruncateCanonicalHash_frame:
  "TruncateCanonicalHash tx b False = Inr tx' \<Longrightarrow>
   headerRows tx' = headerRows tx \<and> tdRows tx' = tdRows tx \<and>
   (\<forall>n. b \<le> n \<longrightarrow> canonical tx' n = None)"
  by (auto simp: TruncateCanonicalHash_def split: if_splits)

lemma WriteHeadHeaderHash_frame:
  "WriteHeadHeaderHash tx h = Inr tx' \<Longrightarrow>
   headerRows tx' = headerRows tx \<and> tdRows tx' = tdRows tx \<and> canonical tx' = canonical tx"
  by (auto simp: WriteHeadHeaderHash_def split: if_splits)

lemma SaveStageProgress_frame:
  "SaveStageProgress tx st n = Inr tx' \<Longrightarrow>
   headerRows tx' = headerRows tx \<and> tdRows tx' = tdRows tx \<and> canonical tx' = canonical tx"
  by (auto simp: SaveStageProgress_def split: if_splits)

lemma unwindHeaders_frame:
  assumes "unwindHeaders u s test tx d0 = (e, tx', d')"
  shows "headerRows tx' = headerRows tx \<and> tdRows tx' = tdRows tx \<and>
         (e = None \<longrightarrow> (\<forall>n. UnwindPoint u + 1 \<le> n \<longrightarrow> canonical tx' n = None))"
  using assms
  unfolding unwindHeaders_def Let_def Done_def Update_def
  by (auto split: if_splits prod.splits option.splits sum.splits
           dest!: TruncateCanonicalHash_frame WriteHeadHeaderHash_frame SaveStageProgress_frame)

text \<open>
  C7. In the store \<open>HeadersUnwind\<close> leaves behind (the caller's transaction, or the
  committed database when it ran its own) the header rows and the total-difficulty rows
  are what they were, whatever the call returns; and when it returns without error, no
  canonical-hash entry is left at any height above \<open>UnwindPoint\<close>.
\<close>

theorem HeadersUnwind_truncates:
  assumes "HeadersUnwind u s tx cfg test = (e, tx', cfg')"
  shows "(e = None \<longrightarrow>
            (\<forall>n. UnwindPoint u < n \<longrightarrow> canonical (storeOf tx' (db cfg')) n = None)) \<and>
         headerRows (storeOf tx' (db cfg')) = headerRows (storeOf tx (db cfg)) \<and>
         tdRows (storeOf tx' (db cfg')) = tdRows (storeOf tx (db cfg))"
proof -
  have le: "\<And>n. UnwindPoint u < n \<Longrightarrow> UnwindPoint u + 1 \<le> n"
    by (simp add: inc_le)
  show ?thesis
  proof (cases tx)
    case (Some t)
    with assms obtain d' where
      r: "unwindHeaders u s test t (hd_cfg cfg) = (e, storeOf tx' (db cfg'), d')"
      by (auto simp: HeadersUnwind_def storeOf_def split: prod.splits)
    from unwindHeaders_frame [OF r] le Some show ?thesis by (auto simp: storeOf_def)
  next
    case None
    show ?thesis
    proof (cases "BeginRw (db cfg)")
      case (Inl err)
      with None assms show ?thesis by (auto simp: HeadersUnwind_def storeOf_def)
    next
      case (Inr t)
      then have t: "t = committed (db cfg)" by (auto simp: BeginRw_def split: if_splits)
      obtain e1 t1 d1 where r: "unwindHeaders u s test t (hd_cfg cfg) = (e1, t1, d1)"
        by (cases "unwindHeaders u s test t (hd_cfg cfg)") auto
      from unwindHeaders_frame [OF r] le None Inr r assms t show ?thesis
        by (auto simp: HeadersUnwind_def storeOf_def Commit_def
                 split: option.splits sum.splits if_splits)
    qed
  qed
qed

theorem HeadersUnwind_truncates_witness:
  "canonical unwindTx 100 = Some 0xA0 \<and>
   fst (HeadersUnwind \<lparr>UnwindID = StageHeaders, UnwindPoint = 99, BadBlock = 0xA0\<rparr>
          \<lparr>ID = StageHeaders, BlockNumber = 100\<rparr> (Some unwindTx) exHeadersCfg True) = None \<and>
   canonical (storeOf
       (fst (snd (HeadersUnwind \<lparr>UnwindID = StageHeaders, UnwindPoint = 99, BadBlock = 0xA0\<rparr>
          \<lparr>ID = StageHeaders, BlockNumber = 100\<rparr> (Some unwindTx) exHeadersCfg True)))
       (db (snd (snd (HeadersUnwind \<lparr>UnwindID = StageHeaders, UnwindPoint = 99, BadBlock = 0xA0\<rparr>
          \<lparr>ID = StageHeaders, BlockNumber = 100\<rparr> (Some unwindTx) exHeadersCfg True))))) 100
     = None \<and>
   headerRows (storeOf
       (fst (snd (HeadersUnwind \<lparr>UnwindID = StageHeaders, UnwindPoint = 99, BadBlock = 0xA0\<rparr>
          \<lparr>ID = StageHeaders, BlockNumber = 100\<rparr> (Some unwindTx) exHeadersCfg True)))
       (db (snd (snd (HeadersUnwind \<lparr>UnwindID = StageHeaders, UnwindPoint = 99, BadBlock = 0xA0\<rparr>
          \<lparr>ID = StageHeaders, BlockNumber = 100\<rparr> (Some unwindTx) exHeadersCfg True)))))
     = headerRows unwindTx \<and>
   tdRows (storeOf
       (fst (snd (HeadersUnwind \<lparr>UnwindID = StageHeaders, UnwindPoint = 99, BadBlock = 0xA0\<rparr>
          \<lparr>ID = StageHeaders, BlockNumber = 100\<rparr> (Some unwindTx) exHeadersCfg True)))
       (db (snd (snd (HeadersUnwind \<lparr>UnwindID = StageHeaders, UnwindPoint = 99, BadBlock = 0xA0\<rparr>
          \<lparr>ID = StageHeaders, BlockNumber = 100\<rparr> (Some unwindTx) exHeadersCfg True)))))
     = tdRows unwindTx"
proof -
  let ?u = "\<lparr>UnwindID = StageHeaders, UnwindPoint = 99, BadBlock = 0xA0\<rparr>"
  let ?s = "\<lparr>ID = StageHeaders, BlockNumber = 100\<rparr>"
  let ?R = "HeadersUnwind ?u ?s (Some unwindTx) exHeadersCfg True"
  have c: "canonical unwindTx 100 = Some 0xA0" by (simp add: unwindTx_def exTx_def)
  have ok: "fst ?R = None"
    by (simp add: HeadersUnwind_def unwindHeaders_def exHeadersCfg_def unwindTx_def exTx_def
          ReportBadHeader_def IsBadHeader_def headerCursorFrom_def mkHeader_def
          TruncateCanonicalHash_def tdKey_def word_rcat_def ReadCanonicalHash_def
          WriteHeadHeaderHash_def Done_def Update_def SaveStageProgress_def split: prod.splits)
  have r: "?R = (fst ?R, fst (snd ?R), snd (snd ?R))" by (simp only: prod.collapse)
  have s: "storeOf (Some unwindTx) (db exHeadersCfg) = unwindTx" by (simp add: storeOf_def)
  have lt: "UnwindPoint ?u < 100" by simp
  from HeadersUnwind_truncates [OF r] ok lt s c show ?thesis by simp
qed

text \<open>
  C9. When the safe or the finalized hash is non-zero and not canonical,
  \<open>writeForkChoiceHashes\<close> returns false and leaves the transaction as it was: none of the
  three pointers is written. When it returns true the head pointer holds the head
  hash, and whether it returns true does not depend on the head hash: the head hash is
  never checked.
\<close>

theorem writeForkChoiceHashes_rejection:
  "((SafeBlockHash forkChoice \<noteq> 0 \<and>
       IsCanonicalHash tx (SafeBlockHash forkChoice) = Inr False) \<or>
    (FinalizedBlockHash forkChoice \<noteq> 0 \<and>
       IsCanonicalHash tx (FinalizedBlockHash forkChoice) = Inr False)
    \<longrightarrow> fst (writeForkChoiceHashes forkChoice tx) = False \<and>
        snd (snd (writeForkChoiceHashes forkChoice tx)) = tx) \<and>
   (fst (writeForkChoiceHashes forkChoice tx) \<longrightarrow>
      forkchoiceHead (snd (snd (writeForkChoiceHashes forkChoice tx)))
        = Some (HeadBlockHash forkChoice)) \<and>
   fst (writeForkChoiceHashes (forkChoice\<lparr>HeadBlockHash := h\<rparr>) tx)
     = fst (writeForkChoiceHashes forkChoice tx)"
  by (auto simp: writeForkChoiceHashes_def Let_def WriteForkchoiceHead_def
           WriteForkchoiceSafe_def WriteForkchoiceFinalized_def split: sum.splits if_splits)

theorem writeForkChoiceHashes_rejection_witness:
  "IsCanonicalHash exTx 0xBAD = Inr False \<and>
   writeForkChoiceHashes
       \<lparr>HeadBlockHash = 0xA0, SafeBlockHash = 0xBAD, FinalizedBlockHash = 0x99\<rparr> exTx
     = (False, None, exTx) \<and>
   fst (writeForkChoiceHashes
       \<lparr>HeadBlockHash = 0xBAD, SafeBlockHash = 0xA0, FinalizedBlockHash = 0x99\<rparr> exTx) \<and>
   forkchoiceHead (snd (snd (writeForkChoiceHashes
       \<lparr>HeadBlockHash = 0xBAD, SafeBlockHash = 0xA0, FinalizedBlockHash = 0x99\<rparr> exTx)))
     = Some 0xBAD"
proof -
  let ?bad = "\<lparr>HeadBlockHash = 0xA0, SafeBlockHash = 0xBAD, FinalizedBlockHash = 0x99\<rparr>"
  let ?ok = "\<lparr>HeadBlockHash = 0xBAD, SafeBlockHash = 0xA0, FinalizedBlockHash = 0x99\<rparr>"
  have nc: "IsCanonicalHash exTx 0xBAD = Inr False"
    by (simp add: IsCanonicalHash_def exTx_def)
  have h1: "SafeBlockHash ?bad \<noteq> 0 \<and> IsCanonicalHash exTx (SafeBlockHash ?bad) = Inr False"
    using nc by simp
  have e: "snd (writeForkChoiceHashes ?bad exTx)
           = (None, snd (snd (writeForkChoiceHashes ?bad exTx)))"
    using nc by (simp add: writeForkChoiceHashes_def)
  have h2: "fst (writeForkChoiceHashes ?ok exTx)"
    by (simp add: writeForkChoiceHashes_def IsCanonicalHash_def ReadCanonicalHash_def exTx_def)
  from writeForkChoiceHashes_rejection [of ?bad exTx] h1
  have "fst (writeForkChoiceHashes ?bad exTx) = False \<and>
        snd (snd (writeForkChoiceHashes ?bad exTx)) = exTx"
    by blast
  with e have 1: "writeForkChoiceHashes ?bad exTx = (False, None, exTx)"
    by (metis prod.collapse)
  from writeForkChoiceHashes_rejection [of ?ok exTx] h2
  have 2: "forkchoiceHead (snd (snd (writeForkChoiceHashes ?ok exTx))) = Some 0xBAD"
    by simp
  from nc 1 h2 2 show ?thesis by blast
qed

text \<open>
  C10. Let \<open>t\<close> be the transaction \<open>FinishForward\<close> runs in: the caller's, or the one it
  opens. When the execution stage's progress read from \<open>t\<close> is at most the stage's
  \<open>BlockNumber\<close>, the call returns nil and leaves everything as it was: the caller's
  transaction and the database (no head-block hash, no stage progress written), the
  fork validator (no \<open>NotifyCurrentHeight\<close>) and the head channel (nothing published).
\<close>

theorem FinishForward_noop:
  assumes "tx = Some t \<or> (tx = None \<and> BeginRw (db_finish cfg) = Inr t)"
      and "ExecutionAt s t = Inr executionAt"
      and "executionAt \<le> BlockNumber s"
  shows "FinishForward s tx cfg initialCycle = Inr (None, tx, cfg)"
  using assms by (auto simp: FinishForward_def Let_def)

theorem FinishForward_noop_witness:
  "ExecutionAt \<lparr>ID = StageFinish, BlockNumber = 100\<rparr> (committed (db_finish exFinishCfg))
     = Inr 100 \<and>
   FinishForward \<lparr>ID = StageFinish, BlockNumber = 100\<rparr>
       (Some (committed (db_finish exFinishCfg))) exFinishCfg False
     = Inr (None, Some (committed (db_finish exFinishCfg)), exFinishCfg) \<and>
   FinishForward \<lparr>ID = StageFinish, BlockNumber = 100\<rparr> None exFinishCfg True
     = Inr (None, None, exFinishCfg)"
proof -
  let ?s = "\<lparr>ID = StageFinish, BlockNumber = 100\<rparr>"
  let ?t = "committed (db_finish exFinishCfg)"
  have a: "Some ?t = Some ?t \<or> (Some ?t = None \<and> BeginRw (db_finish exFinishCfg) = Inr ?t)"
    by simp
  have a': "None = Some ?t \<or> (None = None \<and> BeginRw (db_finish exFinishCfg) = Inr ?t)"
    by (simp add: BeginRw_def exFinishCfg_def)
  have b: "ExecutionAt ?s ?t = Inr 100" by (simp add: ExecutionAt_def exFinishCfg_def exTx_def)
  have c: "(100::u64) \<le> BlockNumber ?s" by simp
  from FinishForward_noop [OF a b c, of False] FinishForward_noop [OF a' b c, of True] b
  show ?thesis by (intro conjI)
qed

end
